theory Spec2Isabelle
  imports Complex_Main "HOL-Library.Multiset"
begin

section \<open>Data model\<close>

text \<open>
  The four tables of the migration (Party with the playback columns of the second
  migration, Participant, Song, Vote). Text columns are strings, nullable columns are
  options, DATETIME columns are milliseconds since the epoch (what \<open>Date.getTime()\<close>
  returns), INTEGER columns are integers. The REAL column \<open>playbackOffsetSec\<close> and every
  finite JavaScript number are read as real numbers: rounding of doubles is not modelled.
  Field names carry the table name because record fields share one name space.
\<close>

type_synonym timestamp = int

record party =
  party_id :: string
  party_code :: string
  party_name :: string
  party_hostParticipantId :: "string option"
  party_maxSongs :: "int option"
  party_durationMinutes :: "int option"
  party_currentSongId :: "string option"
  party_status :: string
  party_playbackStatus :: string
  party_playbackStartedAt :: "timestamp option"
  party_playbackOffsetSec :: real
  party_createdAt :: timestamp
  party_endedAt :: "timestamp option"

record participant =
  participant_id :: string
  participant_partyId :: string
  participant_name :: string
  participant_isHost :: bool
  participant_joinedAt :: timestamp

record song =
  song_id :: string
  song_partyId :: string
  song_addedById :: string
  song_title :: string
  song_artist :: string
  song_artworkUrl :: "string option"
  song_previewUrl :: "string option"
  song_externalUrl :: "string option"
  song_queuePosition :: int
  song_createdAt :: timestamp

record vote =
  vote_id :: string
  vote_partyId :: string
  vote_songId :: string
  vote_participantId :: string
  vote_createdAt :: timestamp

text \<open>The database: each table is the list of its rows in insertion order.\<close>

record db =
  db_parties :: "party list"
  db_participants :: "participant list"
  db_songs :: "song list"
  db_votes :: "vote list"

definition empty_db :: db where
  "empty_db = \<lparr>db_parties = [], db_participants = [], db_songs = [], db_votes = []\<rparr>"

text \<open>
  What a handler cannot compute from the request and the database: the server clock
  (\<open>new Date()\<close>, also the column default of createdAt and joinedAt), the identifiers the
  storage layer gives to the rows a call creates (at most two per call), and the random
  party codes drawn by attempt number.
\<close>

record env =
  env_now :: timestamp
  env_id1 :: string
  env_id2 :: string
  env_codes :: "nat \<Rightarrow> string"

section \<open>JavaScript values and string helpers\<close>

datatype jsnum = Finite real | NaN | PosInfinity | NegInfinity

text \<open>
  A numeric request field: absent (\<open>undefined\<close>), JSON \<open>null\<close>, or a number. String and
  boolean payloads in a numeric field are outside the model.
\<close>

datatype jsvalue = Undefined | Null | Num jsnum

fun Number :: "jsvalue \<Rightarrow> jsnum" where
  "Number Undefined = NaN"
| "Number Null = Finite 0"
| "Number (Num n) = n"

fun isFinite :: "jsnum \<Rightarrow> bool" where
  "isFinite (Finite r) = True"
| "isFinite NaN = False"
| "isFinite PosInfinity = False"
| "isFinite NegInfinity = False"

text \<open>\<open>Math.max(0, x)\<close> on a finite argument.\<close>

fun finite_value :: "jsnum \<Rightarrow> real" where
  "finite_value (Finite r) = r"
| "finite_value NaN = 0"
| "finite_value PosInfinity = 0"
| "finite_value NegInfinity = 0"

text \<open>\<open>String(v ?? "")\<close> for a string field that may be absent or null.\<close>

fun String :: "string option \<Rightarrow> string" where
  "String None = []"
| "String (Some s) = s"

text \<open>\<open>toUpperCase\<close> and \<open>trim\<close> on ASCII text (a \<open>char\<close> is a byte).\<close>

definition upper_char :: "char \<Rightarrow> char" where
  "upper_char c =
     (case map_of (zip ''abcdefghijklmnopqrstuvwxyz'' ''ABCDEFGHIJKLMNOPQRSTUVWXYZ'') c of
        None \<Rightarrow> c
      | Some u \<Rightarrow> u)"

definition toUpperCase :: "string \<Rightarrow> string" where
  "toUpperCase s = map upper_char s"

definition is_space :: "char \<Rightarrow> bool" where
  "is_space c = (c \<in> set [CHR 0x09, CHR 0x0A, CHR 0x0B, CHR 0x0C, CHR 0x0D, CHR '' ''])"

definition trim :: "string \<Rightarrow> string" where
  "trim s = rev (dropWhile is_space (rev (dropWhile is_space s)))"

text \<open>\<open>s || null\<close>: the empty string is falsy.\<close>

definition or_null :: "string \<Rightarrow> string option" where
  "or_null s = (if s = [] then None else Some s)"

section \<open>Storage operations\<close>

text \<open>
  The queries the handlers issue. A create fails (the call throws) when the PRIMARY KEY or
  a UNIQUE INDEX of the migration would be violated. Foreign keys are not checked: every
  handler inserts only references to rows it has just looked up.
\<close>

definition party_findUnique :: "db \<Rightarrow> string \<Rightarrow> party option" where
  "party_findUnique d code = find (\<lambda>p. party_code p = code) (db_parties d)"

definition participant_findFirst :: "db \<Rightarrow> string \<Rightarrow> string \<Rightarrow> participant option" where
  "participant_findFirst d pid partyId =
     find (\<lambda>m. participant_id m = pid \<and> participant_partyId m = partyId) (db_participants d)"

definition song_findFirst :: "db \<Rightarrow> string \<Rightarrow> string \<Rightarrow> song option" where
  "song_findFirst d sid partyId =
     find (\<lambda>s. song_id s = sid \<and> song_partyId s = partyId) (db_songs d)"

definition vote_findFirst :: "db \<Rightarrow> string \<Rightarrow> string \<Rightarrow> vote option" where
  "vote_findFirst d sid pid =
     find (\<lambda>v. vote_songId v = sid \<and> vote_participantId v = pid) (db_votes d)"

definition party_songs :: "db \<Rightarrow> string \<Rightarrow> song list" where
  "party_songs d partyId = filter (\<lambda>s. song_partyId s = partyId) (db_songs d)"

definition party_participants :: "db \<Rightarrow> string \<Rightarrow> participant list" where
  "party_participants d partyId =
     filter (\<lambda>m. participant_partyId m = partyId) (db_participants d)"

definition song_votes :: "db \<Rightarrow> string \<Rightarrow> vote list" where
  "song_votes d sid = filter (\<lambda>v. vote_songId v = sid) (db_votes d)"

definition vote_count :: "db \<Rightarrow> string \<Rightarrow> int" where
  "vote_count d sid = int (length (song_votes d sid))"

definition party_create :: "db \<Rightarrow> party \<Rightarrow> db option" where
  "party_create d p =
     (if list_ex (\<lambda>q. party_id q = party_id p \<or> party_code q = party_code p) (db_parties d)
      then None
      else Some (d\<lparr>db_parties := db_parties d @ [p]\<rparr>))"

definition participant_create :: "db \<Rightarrow> participant \<Rightarrow> db option" where
  "participant_create d m =
     (if list_ex (\<lambda>q. participant_id q = participant_id m \<or>
                       (participant_partyId q = participant_partyId m \<and>
                        participant_name q = participant_name m)) (db_participants d)
      then None
      else Some (d\<lparr>db_participants := db_participants d @ [m]\<rparr>))"

definition song_create :: "db \<Rightarrow> song \<Rightarrow> db option" where
  "song_create d s =
     (if list_ex (\<lambda>q. song_id q = song_id s \<or>
                       (song_partyId q = song_partyId s \<and>
                        song_queuePosition q = song_queuePosition s)) (db_songs d)
      then None
      else Some (d\<lparr>db_songs := db_songs d @ [s]\<rparr>))"

definition vote_create :: "db \<Rightarrow> vote \<Rightarrow> db option" where
  "vote_create d v =
     (if list_ex (\<lambda>q. vote_id q = vote_id v \<or>
                       (vote_songId q = vote_songId v \<and>
                        vote_participantId q = vote_participantId v)) (db_votes d)
      then None
      else Some (d\<lparr>db_votes := db_votes d @ [v]\<rparr>))"

definition vote_delete :: "db \<Rightarrow> string \<Rightarrow> db" where
  "vote_delete d vid = d\<lparr>db_votes := filter (\<lambda>v. vote_id v \<noteq> vid) (db_votes d)\<rparr>"

text \<open>
  \<open>party.update({where: {id}, data})\<close>: fails when no row has the id, otherwise writes the
  data into the rows with that id (\<open>party_map\<close>) and returns the updated row.
\<close>

definition party_map :: "db \<Rightarrow> string \<Rightarrow> (party \<Rightarrow> party) \<Rightarrow> db" where
  "party_map d pid f =
     d\<lparr>db_parties := map (\<lambda>q. if party_id q = pid then f q else q) (db_parties d)\<rparr>"

definition party_update :: "db \<Rightarrow> string \<Rightarrow> (party \<Rightarrow> party) \<Rightarrow> (db \<times> party) option" where
  "party_update d pid f =
     (case find (\<lambda>p. party_id p = pid) (db_parties d) of
        None \<Rightarrow> None
      | Some p \<Rightarrow> Some (party_map d pid f, f p))"

section \<open>Snapshots, events and responses\<close>

record song_view =
  view_song :: song
  view_voteCount :: int
  view_voterIds :: "string list"

record snapshot =
  snap_party :: party
  snap_participants :: "participant list"
  snap_songs :: "song_view list"

text \<open>
  \<open>getPartySnapshot\<close>: the party, its participants by joinedAt, its songs by queuePosition,
  each song with the number and the participants of its votes.
\<close>

definition getPartySnapshot :: "db \<Rightarrow> string \<Rightarrow> snapshot option" where
  "getPartySnapshot d code =
     (case party_findUnique d code of
        None \<Rightarrow> None
      | Some p \<Rightarrow>
          Some \<lparr>snap_party = p,
                snap_participants = sort_key participant_joinedAt (party_participants d (party_id p)),
                snap_songs =
                  map (\<lambda>s. \<lparr>view_song = s,
                             view_voteCount = int (length (song_votes d (song_id s))),
                             view_voterIds = map vote_participantId (song_votes d (song_id s))\<rparr>)
                      (sort_key song_queuePosition (party_songs d (party_id p)))\<rparr>)"

text \<open>An entry of the final standings, before and after the rank is attached.\<close>

record standing_entry =
  entry_songId :: string
  entry_title :: string
  entry_artist :: string
  entry_voteCount :: int
  entry_queuePosition :: int

record standing = standing_entry +
  rank :: int

text \<open>
  The events sent to a room. \<open>PartyStateUpdated\<close> carries the currentSongId field when the
  payload has one (outer \<open>None\<close>: the field is absent) and the status.
\<close>

datatype event =
    PartySnapshot snapshot
  | QueueUpdated string
  | VotesUpdated string int
  | PartyStateUpdated "string option option" string
  | PlaybackUpdated string "timestamp option" real
  | PartyEnded "standing option" "standing list"

type_synonym emission = "string \<times> event"

datatype body =
    ErrorBody string
  | PartyCreatedBody party participant
  | JoinedBody string string string string participant
  | SnapshotBody snapshot
  | SongBody song int "string list"
  | VoteBody string int bool
  | PartyBody party
  | PlaybackBody string "timestamp option" real
  | EndBody "standing option" "standing list"

type_synonym response = "nat \<times> body"

type_synonym outcome = "db \<times> emission list \<times> response"

definition emitPartySnapshot :: "db \<Rightarrow> string \<Rightarrow> emission list" where
  "emitPartySnapshot d partyCode =
     (case getPartySnapshot d partyCode of
        None \<Rightarrow> []
      | Some snap \<Rightarrow> [(partyCode, PartySnapshot snap)])"

definition requireHost :: "db \<Rightarrow> string \<Rightarrow> string \<Rightarrow> bool" where
  "requireHost d partyId participantId =
     (find (\<lambda>m. participant_id m = participantId \<and> participant_partyId m = partyId \<and>
                 participant_isHost m) (db_participants d) \<noteq> None)"

section \<open>Ranking\<close>

text \<open>
  \<open>Array.prototype.sort\<close> with a comparator is a stable sort: an element stays before a
  later one unless the comparator puts it strictly after. Insertion from the right gives
  exactly that.
\<close>

fun insert_by :: "('a \<Rightarrow> 'a \<Rightarrow> int) \<Rightarrow> 'a \<Rightarrow> 'a list \<Rightarrow> 'a list" where
  "insert_by cmp x [] = [x]"
| "insert_by cmp x (y # ys) = (if cmp x y \<le> 0 then x # y # ys else y # insert_by cmp x ys)"

fun sort_by :: "('a \<Rightarrow> 'a \<Rightarrow> int) \<Rightarrow> 'a list \<Rightarrow> 'a list" where
  "sort_by cmp [] = []"
| "sort_by cmp (x # xs) = insert_by cmp x (sort_by cmp xs)"

text \<open>The comparator of the end handler.\<close>

definition compare_standing :: "standing_entry \<Rightarrow> standing_entry \<Rightarrow> int" where
  "compare_standing a b =
     (if entry_voteCount b \<noteq> entry_voteCount a
      then entry_voteCount b - entry_voteCount a
      else entry_queuePosition a - entry_queuePosition b)"

text \<open>\<open>voteCountMap.get(song.id) ?? 0\<close>\<close>

definition get_or_zero :: "(string \<rightharpoonup> int) \<Rightarrow> string \<Rightarrow> int" where
  "get_or_zero m k = (case m k of None \<Rightarrow> 0 | Some c \<Rightarrow> c)"

definition to_entry :: "(string \<rightharpoonup> int) \<Rightarrow> song \<Rightarrow> standing_entry" where
  "to_entry voteCountMap s =
     \<lparr>entry_songId = song_id s, entry_title = song_title s, entry_artist = song_artist s,
      entry_voteCount = get_or_zero voteCountMap (song_id s),
      entry_queuePosition = song_queuePosition s\<rparr>"

definition with_rank :: "nat \<times> standing_entry \<Rightarrow> standing" where
  "with_rank ie =
     \<lparr>entry_songId = entry_songId (snd ie), entry_title = entry_title (snd ie),
      entry_artist = entry_artist (snd ie), entry_voteCount = entry_voteCount (snd ie),
      entry_queuePosition = entry_queuePosition (snd ie), rank = int (fst ie) + 1\<rparr>"

definition compute_standings :: "song list \<Rightarrow> (string \<rightharpoonup> int) \<Rightarrow> standing list" where
  "compute_standings songs voteCountMap =
     map with_rank (enumerate 0 (sort_by compare_standing (map (to_entry voteCountMap) songs)))"

text \<open>\<open>standings[0] ?? null\<close>\<close>

definition first_or_null :: "'a list \<Rightarrow> 'a option" where
  "first_or_null xs = (case xs of [] \<Rightarrow> None | x # _ \<Rightarrow> Some x)"

text \<open>
  \<open>vote.groupBy({by: ["songId"], where: {partyId}, _count})\<close> turned into the Map: one entry
  per song that has a vote in the party, holding the number of those votes.
\<close>

definition voteCountMap_of :: "db \<Rightarrow> string \<Rightarrow> (string \<rightharpoonup> int)" where
  "voteCountMap_of d partyId =
     (let vs = filter (\<lambda>v. vote_partyId v = partyId) (db_votes d)
      in map_of (map (\<lambda>sid. (sid, int (length (filter (\<lambda>v. vote_songId v = sid) vs))))
                     (remdups (map vote_songId vs))))"

text \<open>
  The standings the end handler computes for a party: its songs by queuePosition, mapped
  to entries with their vote counts, sorted, ranked.
\<close>

definition end_standings :: "db \<Rightarrow> string \<Rightarrow> standing list" where
  "end_standings d partyId =
     compute_standings (sort_key song_queuePosition (party_songs d partyId))
       (voteCountMap_of d partyId)"

section \<open>Playback clock\<close>

text \<open>
  The position the playback handler derives from the stored state: \<open>startedAtMs\<close> is
  truthy when the start time is set and is not 0 ms.
\<close>

definition currentOffsetSec :: "party \<Rightarrow> timestamp \<Rightarrow> real" where
  "currentOffsetSec p now =
     (let startedAtMs = party_playbackStartedAt p;
          elapsedSec =
            (case startedAtMs of
               None \<Rightarrow> 0
             | Some t \<Rightarrow>
                 if party_playbackStatus p = ''PLAYING'' \<and> t \<noteq> 0
                 then max 0 (real_of_int (now - t) / 1000)
                 else 0)
      in party_playbackOffsetSec p + elapsedSec)"

text \<open>\<open>Number.isFinite(x) ? Math.max(0, x) : currentOffsetSec\<close>\<close>

definition offset_or_current :: "jsnum \<Rightarrow> real \<Rightarrow> real" where
  "offset_or_current incomingOffsetSec current =
     (if isFinite incomingOffsetSec then max 0 (finite_value incomingOffsetSec) else current)"

section \<open>Handlers\<close>

text \<open>
  Each handler takes the database, the environment and the request fields, and returns the
  database after the call, the events it sent in order, and the response (status code and
  body). A thrown error is caught by the handler and answered with status 500.
\<close>

definition fail :: "db \<Rightarrow> nat \<Rightarrow> string \<Rightarrow> outcome" where
  "fail d code msg = (d, [], (code, ErrorBody msg))"

text \<open>
  \<open>generatePartyCode\<close>: ten attempts; the first drawn code no party has is returned; the
  function throws when all ten are taken. The second argument counts the attempts left.
\<close>

fun generatePartyCode_loop :: "db \<Rightarrow> (nat \<Rightarrow> string) \<Rightarrow> nat \<Rightarrow> nat \<Rightarrow> string option" where
  "generatePartyCode_loop d draws i 0 = None"
| "generatePartyCode_loop d draws i (Suc k) =
     (if party_findUnique d (draws i) = None then Some (draws i)
      else generatePartyCode_loop d draws (i + 1) k)"

definition generatePartyCode :: "db \<Rightarrow> (nat \<Rightarrow> string) \<Rightarrow> string option" where
  "generatePartyCode d draws = generatePartyCode_loop d draws 0 10"

text \<open>
  The body of the transaction of \<open>POST /api/parties\<close>: create the party, create the host,
  link the host. \<open>None\<close> is a throw inside the transaction.
\<close>

definition createParty_tx ::
  "db \<Rightarrow> env \<Rightarrow> string \<Rightarrow> string \<Rightarrow> string \<Rightarrow> int option \<Rightarrow> int option
     \<Rightarrow> (db \<times> party \<times> participant) option" where
  "createParty_tx d e code name hostName maxSongs durationMinutes =
     (let p = \<lparr>party_id = env_id1 e, party_code = code, party_name = name,
                party_hostParticipantId = None, party_maxSongs = maxSongs,
                party_durationMinutes = durationMinutes, party_currentSongId = None,
                party_status = ''ACTIVE'', party_playbackStatus = ''PAUSED'',
                party_playbackStartedAt = None, party_playbackOffsetSec = 0,
                party_createdAt = env_now e, party_endedAt = None\<rparr>
      in case party_create d p of
           None \<Rightarrow> None
         | Some d1 \<Rightarrow>
             (let m = \<lparr>participant_id = env_id2 e, participant_partyId = party_id p,
                        participant_name = hostName, participant_isHost = True,
                        participant_joinedAt = env_now e\<rparr>
              in case participant_create d1 m of
                   None \<Rightarrow> None
                 | Some d2 \<Rightarrow>
                     (case party_update d2 (party_id p)
                             (\<lambda>q. q\<lparr>party_hostParticipantId := Some (participant_id m)\<rparr>) of
                        None \<Rightarrow> None
                      | Some (d3, _) \<Rightarrow> Some (d3, p, m))))"

text \<open>
  \<open>POST /api/parties\<close>. \<open>$transaction\<close> commits the writes of its body when the body
  returns and discards all of them when it throws. \<open>maxSongs\<close> and \<open>durationMinutes\<close> are
  the values \<open>parseOptionalNumber\<close> returned, for integral input.
\<close>

definition createParty ::
  "db \<Rightarrow> env \<Rightarrow> string option \<Rightarrow> string option \<Rightarrow> int option \<Rightarrow> int option \<Rightarrow> outcome" where
  "createParty d e name_field hostName_field maxSongs durationMinutes =
     (let name = trim (String name_field);
          hostName = trim (String hostName_field)
      in if name = [] \<or> hostName = [] then fail d 400 ''name and hostName are required''
         else case generatePartyCode d (env_codes e) of
                None \<Rightarrow> fail d 500 ''Failed to create party''
              | Some code \<Rightarrow>
                  (case createParty_tx d e code name hostName maxSongs durationMinutes of
                     None \<Rightarrow> fail d 500 ''Failed to create party''
                   | Some (d', p, m) \<Rightarrow> (d', [], (201, PartyCreatedBody p m))))"

text \<open>
  \<open>POST /api/parties/:code/join\<close>. Any unique-constraint failure of the create has the
  error code P2002 and is answered 409.
\<close>

definition joinParty :: "db \<Rightarrow> env \<Rightarrow> string \<Rightarrow> string option \<Rightarrow> outcome" where
  "joinParty d e code_param name_field =
     (let code = toUpperCase code_param;
          name = trim (String name_field)
      in if name = [] then fail d 400 ''name is required''
         else case party_findUnique d code of
                None \<Rightarrow> fail d 404 ''Party not found''
              | Some p \<Rightarrow>
                  if party_status p = ''ENDED'' then fail d 409 ''Party already ended''
                  else (let m = \<lparr>participant_id = env_id1 e, participant_partyId = party_id p,
                                  participant_name = name, participant_isHost = False,
                                  participant_joinedAt = env_now e\<rparr>
                        in case participant_create d m of
                             None \<Rightarrow>
                               fail d 409 ''That display name is already in use in this party''
                           | Some d' \<Rightarrow>
                               (d', emitPartySnapshot d' code,
                                (200, JoinedBody (party_id p) (party_code p) (party_name p)
                                        (party_status p) m))))"

text \<open>\<open>GET /api/parties/:code\<close>\<close>

definition getParty :: "db \<Rightarrow> string \<Rightarrow> outcome" where
  "getParty d code_param =
     (let code = toUpperCase code_param
      in case getPartySnapshot d code of
           None \<Rightarrow> fail d 404 ''Party not found''
         | Some snap \<Rightarrow> (d, [], (200, SnapshotBody snap)))"

text \<open>\<open>POST /api/parties/:code/songs\<close>\<close>

definition addSong ::
  "db \<Rightarrow> env \<Rightarrow> string \<Rightarrow> string option \<Rightarrow> string option \<Rightarrow> string option
     \<Rightarrow> string option \<Rightarrow> string option \<Rightarrow> string option \<Rightarrow> outcome" where
  "addSong d e code_param participantId_field title_field artist_field
           artworkUrl_field previewUrl_field externalUrl_field =
     (let code = toUpperCase code_param;
          participantId = String participantId_field;
          title = trim (String title_field);
          artist = trim (String artist_field);
          artworkUrl = or_null (trim (String artworkUrl_field));
          previewUrl = or_null (trim (String previewUrl_field));
          externalUrl = or_null (trim (String externalUrl_field))
      in if participantId = [] \<or> title = [] \<or> artist = []
         then fail d 400 ''participantId, title and artist are required''
         else case party_findUnique d code of
                None \<Rightarrow> fail d 404 ''Party not found''
              | Some p \<Rightarrow>
                  if party_status p = ''ENDED'' then fail d 409 ''Party already ended''
                  else (case participant_findFirst d participantId (party_id p) of
                         None \<Rightarrow> fail d 403 ''Participant is not in this party''
                       | Some _ \<Rightarrow>
                           (let songs = party_songs d (party_id p)
                            in if (case party_maxSongs p of
                                     None \<Rightarrow> False
                                   | Some maxSongs \<Rightarrow> int (length songs) \<ge> maxSongs)
                               then fail d 409 ''Party has reached max songs''
                               else (let queuePosition = int (length songs) + 1;
                                         s = \<lparr>song_id = env_id1 e, song_partyId = party_id p,
                                              song_addedById = participantId,
                                              song_title = title, song_artist = artist,
                                              song_artworkUrl = artworkUrl,
                                              song_previewUrl = previewUrl,
                                              song_externalUrl = externalUrl,
                                              song_queuePosition = queuePosition,
                                              song_createdAt = env_now e\<rparr>
                                     in case song_create d s of
                                          None \<Rightarrow> fail d 500 ''Failed to add song''
                                        | Some d' \<Rightarrow>
                                            (d',
                                             emitPartySnapshot d' code @
                                               [(code, QueueUpdated (song_id s))],
                                             (201, SongBody s 0 []))))))"

text \<open>\<open>POST /api/parties/:code/votes\<close>\<close>

definition toggleVote :: "db \<Rightarrow> env \<Rightarrow> string \<Rightarrow> string option \<Rightarrow> string option \<Rightarrow> outcome" where
  "toggleVote d e code_param participantId_field songId_field =
     (let code = toUpperCase code_param;
          participantId = String participantId_field;
          songId = String songId_field
      in if participantId = [] \<or> songId = []
         then fail d 400 ''participantId and songId are required''
         else case party_findUnique d code of
                None \<Rightarrow> fail d 404 ''Party not found''
              | Some p \<Rightarrow>
                  if party_status p = ''ENDED'' then fail d 409 ''Party already ended''
                  else if participant_findFirst d participantId (party_id p) = None
                  then fail d 403 ''Participant is not in this party''
                  else if song_findFirst d songId (party_id p) = None
                  then fail d 404 ''Song not found in this party''
                  else (let written =
                              (case vote_findFirst d songId participantId of
                                 Some existingVote \<Rightarrow>
                                   Some (vote_delete d (vote_id existingVote), False)
                               | None \<Rightarrow>
                                   (case vote_create d
                                           \<lparr>vote_id = env_id1 e, vote_partyId = party_id p,
                                            vote_songId = songId,
                                            vote_participantId = participantId,
                                            vote_createdAt = env_now e\<rparr> of
                                      None \<Rightarrow> None
                                    | Some d' \<Rightarrow> Some (d', True)))
                        in case written of
                             None \<Rightarrow> fail d 500 ''Failed to update vote''
                           | Some (d', voted) \<Rightarrow>
                               (let voteCount = vote_count d' songId
                                in (d',
                                    (code, VotesUpdated songId voteCount) #
                                      emitPartySnapshot d' code,
                                    (200, VoteBody songId voteCount voted)))))"

text \<open>\<open>POST /api/parties/:code/current-song\<close>\<close>

definition setCurrentSong ::
  "db \<Rightarrow> env \<Rightarrow> string \<Rightarrow> string option \<Rightarrow> string option \<Rightarrow> outcome" where
  "setCurrentSong d e code_param participantId_field songId_field =
     (let code = toUpperCase code_param;
          participantId = String participantId_field;
          songId = String songId_field
      in if participantId = [] \<or> songId = []
         then fail d 400 ''participantId and songId are required''
         else case party_findUnique d code of
                None \<Rightarrow> fail d 404 ''Party not found''
              | Some p \<Rightarrow>
                  if party_status p = ''ENDED'' then fail d 409 ''Party already ended''
                  else if \<not> requireHost d (party_id p) participantId
                  then fail d 403 ''Only host can change current song''
                  else if song_findFirst d songId (party_id p) = None
                  then fail d 404 ''Song not found in this party''
                  else (case party_update d (party_id p)
                              (\<lambda>q. q\<lparr>party_currentSongId := Some songId,
                                      party_playbackStatus := ''PAUSED'',
                                      party_playbackStartedAt := None,
                                      party_playbackOffsetSec := 0\<rparr>) of
                         None \<Rightarrow> fail d 500 ''Failed to set current song''
                       | Some (d', updated) \<Rightarrow>
                           (d',
                            (code, PartyStateUpdated (Some (party_currentSongId updated))
                                     (party_status updated)) #
                              emitPartySnapshot d' code,
                            (200, PartyBody updated))))"

text \<open>
  \<open>POST /api/parties/:code/playback\<close>. The three \<open>let\<close>-bound variables of the handler are
  assigned in the PLAY and PAUSE branches; any other action returns before the update.
\<close>

definition setPlayback ::
  "db \<Rightarrow> env \<Rightarrow> string \<Rightarrow> string option \<Rightarrow> string option \<Rightarrow> jsvalue \<Rightarrow> outcome" where
  "setPlayback d e code_param participantId_field action_field offsetSec_field =
     (let code = toUpperCase code_param;
          participantId = String participantId_field;
          action = toUpperCase (String action_field);
          incomingOffsetSec = Number offsetSec_field
      in if participantId = [] \<or> action = []
         then fail d 400 ''participantId and action are required''
         else case party_findUnique d code of
                None \<Rightarrow> fail d 404 ''Party not found''
              | Some p \<Rightarrow>
                  if party_status p = ''ENDED'' then fail d 409 ''Party already ended''
                  else if \<not> requireHost d (party_id p) participantId
                  then fail d 403 ''Only host can control playback''
                  else (let now = env_now e;
                            current = currentOffsetSec p now;
                            assigned =
                              (if action = ''PLAY''
                               then Some (''PLAYING'', Some now,
                                          offset_or_current incomingOffsetSec current)
                               else if action = ''PAUSE''
                               then Some (''PAUSED'', None,
                                          offset_or_current incomingOffsetSec current)
                               else None)
                        in case assigned of
                             None \<Rightarrow> fail d 400 ''action must be PLAY or PAUSE''
                           | Some (playbackStatus, playbackStartedAt, playbackOffsetSec) \<Rightarrow>
                               (case party_update d (party_id p)
                                       (\<lambda>q. q\<lparr>party_playbackStatus := playbackStatus,
                                               party_playbackStartedAt := playbackStartedAt,
                                               party_playbackOffsetSec := playbackOffsetSec\<rparr>) of
                                  None \<Rightarrow> fail d 500 ''Failed to update playback state''
                                | Some (d', updated) \<Rightarrow>
                                    (d',
                                     (code, PlaybackUpdated (party_playbackStatus updated)
                                              (party_playbackStartedAt updated)
                                              (party_playbackOffsetSec updated)) #
                                       emitPartySnapshot d' code,
                                     (200, PlaybackBody (party_playbackStatus updated)
                                             (party_playbackStartedAt updated)
                                             (party_playbackOffsetSec updated))))))"

text \<open>\<open>POST /api/parties/:code/end\<close>\<close>

definition endParty :: "db \<Rightarrow> env \<Rightarrow> string \<Rightarrow> string option \<Rightarrow> outcome" where
  "endParty d e code_param participantId_field =
     (let code = toUpperCase code_param;
          participantId = String participantId_field
      in if participantId = [] then fail d 400 ''participantId is required''
         else case party_findUnique d code of
                None \<Rightarrow> fail d 404 ''Party not found''
              | Some p \<Rightarrow>
                  if party_status p = ''ENDED'' then fail d 409 ''Party already ended''
                  else if \<not> requireHost d (party_id p) participantId
                  then fail d 403 ''Only host can end party''
                  else (let standings = end_standings d (party_id p);
                            winner = first_or_null standings
                        in case party_update d (party_id p)
                                  (\<lambda>q. q\<lparr>party_status := ''ENDED'',
                                          party_endedAt := Some (env_now e)\<rparr>) of
                             None \<Rightarrow> fail d 500 ''Failed to end party''
                           | Some (d', _) \<Rightarrow>
                               (d',
                                [(code, PartyEnded winner standings),
                                 (code, PartyStateUpdated None ''ENDED'')] @
                                  emitPartySnapshot d' code,
                                (200, EndBody winner standings))))"

section \<open>Requests and runs\<close>

datatype request =
    CreateParty "string option" "string option" "int option" "int option"
  | JoinParty string "string option"
  | GetParty string
  | AddSong string "string option" "string option" "string option"
            "string option" "string option" "string option"
  | ToggleVote string "string option" "string option"
  | SetCurrentSong string "string option" "string option"
  | SetPlayback string "string option" "string option" jsvalue
  | EndParty string "string option"

fun handle :: "db \<Rightarrow> env \<times> request \<Rightarrow> outcome" where
  "handle d (e, CreateParty n h ms dm) = createParty d e n h ms dm"
| "handle d (e, JoinParty c n) = joinParty d e c n"
| "handle d (e, GetParty c) = getParty d c"
| "handle d (e, AddSong c pid t a aw pv ex) = addSong d e c pid t a aw pv ex"
| "handle d (e, ToggleVote c pid sid) = toggleVote d e c pid sid"
| "handle d (e, SetCurrentSong c pid sid) = setCurrentSong d e c pid sid"
| "handle d (e, SetPlayback c pid act off) = setPlayback d e c pid act off"
| "handle d (e, EndParty c pid) = endParty d e c pid"

text \<open>The database after a sequence of calls, one after the other.\<close>

fun run :: "db \<Rightarrow> (env \<times> request) list \<Rightarrow> db" where
  "run d [] = d"
| "run d (c # cs) = run (fst (handle d c)) cs"

section \<open>What the handlers write\<close>

text \<open>
  The rows and databases the handlers produce, named so that the result of each branch of
  a handler can be written down.
\<close>

text \<open>The database after the end handler has marked the party with the given id.\<close>

definition ended_db :: "db \<Rightarrow> string \<Rightarrow> timestamp \<Rightarrow> db" where
  "ended_db d pid now =
     party_map d pid (\<lambda>q. q\<lparr>party_status := ''ENDED'', party_endedAt := Some now\<rparr>)"

text \<open>The database after the playback handler has written status, start time and offset.\<close>

definition playback_db :: "db \<Rightarrow> string \<Rightarrow> string \<Rightarrow> timestamp option \<Rightarrow> real \<Rightarrow> db" where
  "playback_db d pid st sa so =
     party_map d pid (\<lambda>q. q\<lparr>party_playbackStatus := st, party_playbackStartedAt := sa,
                              party_playbackOffsetSec := so\<rparr>)"

text \<open>The capacity check of the add handler.\<close>

definition queue_full :: "db \<Rightarrow> party \<Rightarrow> bool" where
  "queue_full d p =
     (case party_maxSongs p of
        None \<Rightarrow> False
      | Some maxSongs \<Rightarrow> int (length (party_songs d (party_id p))) \<ge> maxSongs)"

text \<open>The row the add handler creates.\<close>

definition added_song ::
  "db \<Rightarrow> env \<Rightarrow> party \<Rightarrow> string option \<Rightarrow> string option \<Rightarrow> string option
     \<Rightarrow> string option \<Rightarrow> string option \<Rightarrow> string option \<Rightarrow> song" where
  "added_song d e p pf tf af awf pvf exf =
     \<lparr>song_id = env_id1 e, song_partyId = party_id p, song_addedById = String pf,
      song_title = trim (String tf), song_artist = trim (String af),
      song_artworkUrl = or_null (trim (String awf)),
      song_previewUrl = or_null (trim (String pvf)),
      song_externalUrl = or_null (trim (String exf)),
      song_queuePosition = int (length (party_songs d (party_id p))) + 1,
      song_createdAt = env_now e\<rparr>"

text \<open>The row the vote handler creates.\<close>

definition cast_vote :: "env \<Rightarrow> party \<Rightarrow> string \<Rightarrow> string \<Rightarrow> vote" where
  "cast_vote e p songId participantId =
     \<lparr>vote_id = env_id1 e, vote_partyId = party_id p, vote_songId = songId,
      vote_participantId = participantId, vote_createdAt = env_now e\<rparr>"

text \<open>The outcome of the vote handler once it has written.\<close>

definition voted_outcome :: "db \<Rightarrow> string \<Rightarrow> string \<Rightarrow> bool \<Rightarrow> outcome" where
  "voted_outcome d' code songId voted =
     (d', (code, VotesUpdated songId (vote_count d' songId)) # emitPartySnapshot d' code,
      (200, VoteBody songId (vote_count d' songId) voted))"

text \<open>The database after the current-song handler has written.\<close>

definition current_db :: "db \<Rightarrow> string \<Rightarrow> string \<Rightarrow> db" where
  "current_db d pid songId =
     party_map d pid (\<lambda>q. q\<lparr>party_currentSongId := Some songId,
                              party_playbackStatus := ''PAUSED'',
                              party_playbackStartedAt := None,
                              party_playbackOffsetSec := 0\<rparr>)"

text \<open>The rows the create handler writes, and the database after its transaction.\<close>

definition created_party :: "env \<Rightarrow> string \<Rightarrow> string \<Rightarrow> int option \<Rightarrow> int option \<Rightarrow> party" where
  "created_party e code name maxSongs durationMinutes =
     \<lparr>party_id = env_id1 e, party_code = code, party_name = name,
      party_hostParticipantId = None, party_maxSongs = maxSongs,
      party_durationMinutes = durationMinutes, party_currentSongId = None,
      party_status = ''ACTIVE'', party_playbackStatus = ''PAUSED'',
      party_playbackStartedAt = None, party_playbackOffsetSec = 0,
      party_createdAt = env_now e, party_endedAt = None\<rparr>"

definition created_host :: "env \<Rightarrow> string \<Rightarrow> participant" where
  "created_host e hostName =
     \<lparr>participant_id = env_id2 e, participant_partyId = env_id1 e,
      participant_name = hostName, participant_isHost = True,
      participant_joinedAt = env_now e\<rparr>"

definition created_db :: "db \<Rightarrow> party \<Rightarrow> participant \<Rightarrow> db" where
  "created_db d p m =
     d\<lparr>db_parties :=
         db_parties d @ [p\<lparr>party_hostParticipantId := Some (participant_id m)\<rparr>],
       db_participants := db_participants d @ [m]\<rparr>"

text \<open>The row the join handler creates.\<close>

definition joined_participant :: "env \<Rightarrow> party \<Rightarrow> string \<Rightarrow> participant" where
  "joined_participant e p name =
     \<lparr>participant_id = env_id1 e, participant_partyId = party_id p,
      participant_name = name, participant_isHost = False,
      participant_joinedAt = env_now e\<rparr>"

section \<open>Properties the claims speak of\<close>

text \<open>
  The order of the standings in the words of the specification: more votes first, and
  among equal vote counts the smaller queue position first.
\<close>

definition ranks_before :: "'a standing_entry_scheme \<Rightarrow> 'b standing_entry_scheme \<Rightarrow> bool" where
  "ranks_before a b \<longleftrightarrow>
     entry_voteCount a > entry_voteCount b \<or>
     (entry_voteCount a = entry_voteCount b \<and> entry_queuePosition a \<le> entry_queuePosition b)"

text \<open>The queue positions of a party's songs, in the order the songs were added.\<close>

definition queue_positions :: "db \<Rightarrow> string \<Rightarrow> int list" where
  "queue_positions d partyId = map song_queuePosition (party_songs d partyId)"

text \<open>
  A call is a successful add to the party with the given id: it is an AddSong, its code
  resolves to that party, and it is answered 201.
\<close>

fun added_to :: "string \<Rightarrow> db \<Rightarrow> env \<times> request \<Rightarrow> bool" where
  "added_to partyId d (e, AddSong c pid t a aw pv ex) =
     ((case party_findUnique d (toUpperCase c) of
         None \<Rightarrow> False
       | Some p \<Rightarrow> party_id p = partyId) \<and>
      fst (snd (snd (addSong d e c pid t a aw pv ex))) = 201)"
| "added_to partyId d (e, r) = False"

fun successful_adds :: "string \<Rightarrow> db \<Rightarrow> (env \<times> request) list \<Rightarrow> nat" where
  "successful_adds partyId d [] = 0"
| "successful_adds partyId d (c # cs) =
     (if added_to partyId d c then 1 else 0) + successful_adds partyId (fst (handle d c)) cs"

text \<open>The mutating calls addressed to a code, and whether a call carries its required fields.\<close>

fun mutating_on :: "string \<Rightarrow> request \<Rightarrow> bool" where
  "mutating_on code (AddSong c pid t a aw pv ex) = (toUpperCase c = code)"
| "mutating_on code (ToggleVote c pid sid) = (toUpperCase c = code)"
| "mutating_on code (SetCurrentSong c pid sid) = (toUpperCase c = code)"
| "mutating_on code (SetPlayback c pid act off) = (toUpperCase c = code)"
| "mutating_on code (EndParty c pid) = (toUpperCase c = code)"
| "mutating_on code (CreateParty n h ms dm) = False"
| "mutating_on code (JoinParty c n) = False"
| "mutating_on code (GetParty c) = False"

fun has_required_fields :: "request \<Rightarrow> bool" where
  "has_required_fields (AddSong c pid t a aw pv ex) =
     (String pid \<noteq> [] \<and> trim (String t) \<noteq> [] \<and> trim (String a) \<noteq> [])"
| "has_required_fields (ToggleVote c pid sid) = (String pid \<noteq> [] \<and> String sid \<noteq> [])"
| "has_required_fields (SetCurrentSong c pid sid) = (String pid \<noteq> [] \<and> String sid \<noteq> [])"
| "has_required_fields (SetPlayback c pid act off) =
     (String pid \<noteq> [] \<and> toUpperCase (String act) \<noteq> [])"
| "has_required_fields (EndParty c pid) = (String pid \<noteq> [])"
| "has_required_fields (CreateParty n h ms dm) = (trim (String n) \<noteq> [] \<and> trim (String h) \<noteq> [])"
| "has_required_fields (JoinParty c n) = (trim (String n) \<noteq> [])"
| "has_required_fields (GetParty c) = True"

text \<open>
  The playback clock in the words of the specification: the position at a time, and the
  base offset of Play and Pause (the explicit offset if provided, finite and not negative,
  else the position now). Times are in milliseconds, offsets in seconds.
\<close>

definition spec_position :: "party \<Rightarrow> timestamp \<Rightarrow> real" where
  "spec_position p t =
     (if party_playbackStatus p = ''PAUSED'' then party_playbackOffsetSec p
      else case party_playbackStartedAt p of
             None \<Rightarrow> party_playbackOffsetSec p
           | Some s \<Rightarrow> party_playbackOffsetSec p + max 0 (real_of_int (t - s) / 1000))"

fun spec_base :: "jsvalue \<Rightarrow> party \<Rightarrow> timestamp \<Rightarrow> real" where
  "spec_base (Num (Finite x)) p now = (if x \<ge> 0 then x else spec_position p now)"
| "spec_base v p now = spec_position p now"

text \<open>The invariant of the playback clock: the start time is set exactly while playing.\<close>

definition playback_ok :: "party \<Rightarrow> bool" where
  "playback_ok p \<longleftrightarrow> (party_playbackStartedAt p \<noteq> None) = (party_playbackStatus p = ''PLAYING'')"

text \<open>
  What the primary key and the unique index of the Vote table guarantee: no two votes
  share an id, and no two votes share a (song, participant) pair.
\<close>

definition votes_unique :: "db \<Rightarrow> bool" where
  "votes_unique d \<longleftrightarrow>
     distinct (map vote_id (db_votes d)) \<and>
     distinct (map (\<lambda>v. (vote_songId v, vote_participantId v)) (db_votes d))"

text \<open>The events of a list that are snapshots, as a marker list, and the event kinds.\<close>

fun is_snapshot :: "emission \<Rightarrow> bool" where
  "is_snapshot (room, PartySnapshot snap) = True"
| "is_snapshot (room, ev) = False"

text \<open>The (song, participant) pairs of the votes in the database.\<close>

definition vote_pairs :: "db \<Rightarrow> (string \<times> string) list" where
  "vote_pairs d = map (\<lambda>v. (vote_songId v, vote_participantId v)) (db_votes d)"

text \<open>The answer of each handler to a call that lacks a required field.\<close>

fun required_message :: "request \<Rightarrow> string" where
  "required_message (CreateParty n h ms dm) = ''name and hostName are required''"
| "required_message (JoinParty c n) = ''name is required''"
| "required_message (GetParty c) = []"
| "required_message (AddSong c pid t a aw pv ex) =
     ''participantId, title and artist are required''"
| "required_message (ToggleVote c pid sid) = ''participantId and songId are required''"
| "required_message (SetCurrentSong c pid sid) = ''participantId and songId are required''"
| "required_message (SetPlayback c pid act off) = ''participantId and action are required''"
| "required_message (EndParty c pid) = ''participantId is required''"

text \<open>
  What every write of a handler to an existing party row keeps: the id, the code, the
  status ENDED once set, and the invariant of the playback clock.
\<close>

definition party_step_ok :: "(party \<Rightarrow> party) \<Rightarrow> bool" where
  "party_step_ok g \<longleftrightarrow>
     (\<forall>q. party_id (g q) = party_id q \<and> party_code (g q) = party_code q \<and>
          (party_status q = ''ENDED'' \<longrightarrow> party_status (g q) = ''ENDED'') \<and>
          (playback_ok q \<longrightarrow> playback_ok (g q)))"

section \<open>A concrete party\<close>

text \<open>
  A party with capacity 2 created by its host, two songs added, one vote on the second
  song: the calls, and the database they lead to.
\<close>

definition demo_env :: env where
  "demo_env = \<lparr>env_now = 1000, env_id1 = ''p1'', env_id2 = ''h1'', env_codes = (\<lambda>i. ''ABC234'')\<rparr>"

definition demo_calls :: "(env \<times> request) list" where
  "demo_calls =
     [(demo_env, CreateParty (Some ''Party'') (Some ''Host'') (Some 2) None),
      (demo_env\<lparr>env_id1 := ''s1''\<rparr>,
         AddSong ''abc234'' (Some ''h1'') (Some ''A'') (Some ''x'') None None None),
      (demo_env\<lparr>env_id1 := ''s2''\<rparr>,
         AddSong ''abc234'' (Some ''h1'') (Some ''B'') (Some ''y'') None None None),
      (demo_env\<lparr>env_id1 := ''v1''\<rparr>, ToggleVote ''abc234'' (Some ''h1'') (Some ''s2''))]"

definition demo_party :: party where
  "demo_party =
     \<lparr>party_id = ''p1'', party_code = ''ABC234'', party_name = ''Party'',
      party_hostParticipantId = Some ''h1'', party_maxSongs = Some 2,
      party_durationMinutes = None, party_currentSongId = None,
      party_status = ''ACTIVE'', party_playbackStatus = ''PAUSED'',
      party_playbackStartedAt = None, party_playbackOffsetSec = 0,
      party_createdAt = 1000, party_endedAt = None\<rparr>"

definition demo_host :: participant where
  "demo_host =
     \<lparr>participant_id = ''h1'', participant_partyId = ''p1'', participant_name = ''Host'',
      participant_isHost = True, participant_joinedAt = 1000\<rparr>"

definition demo_song :: "string \<Rightarrow> string \<Rightarrow> string \<Rightarrow> int \<Rightarrow> song" where
  "demo_song sid title artist pos =
     \<lparr>song_id = sid, song_partyId = ''p1'', song_addedById = ''h1'', song_title = title,
      song_artist = artist, song_artworkUrl = None, song_previewUrl = None,
      song_externalUrl = None, song_queuePosition = pos, song_createdAt = 1000\<rparr>"

definition demo_vote :: vote where
  "demo_vote =
     \<lparr>vote_id = ''v1'', vote_partyId = ''p1'', vote_songId = ''s2'',
      vote_participantId = ''h1'', vote_createdAt = 1000\<rparr>"

definition demo_db :: db where
  "demo_db =
     \<lparr>db_parties = [demo_party],
      db_participants = [demo_host],
      db_songs = [demo_song ''s1'' ''A'' ''x'' 1, demo_song ''s2'' ''B'' ''y'' 2],
      db_votes = [demo_vote]\<rparr>"

text \<open>The standings of that party: the voted song first.\<close>

definition demo_standing :: "string \<Rightarrow> string \<Rightarrow> string \<Rightarrow> int \<Rightarrow> int \<Rightarrow> int \<Rightarrow> standing" where
  "demo_standing sid title artist votes pos r =
     \<lparr>entry_songId = sid, entry_title = title, entry_artist = artist,
      entry_voteCount = votes, entry_queuePosition = pos, rank = r\<rparr>"

definition demo_standings :: "standing list" where
  "demo_standings =
     [demo_standing ''s2'' ''B'' ''y'' 1 2 1, demo_standing ''s1'' ''A'' ''x'' 0 1 2]"

text \<open>The same database after the host has ended the party at time 3000.\<close>

definition demo_ended_db :: db where
  "demo_ended_db =
     demo_db\<lparr>db_parties :=
       [demo_party\<lparr>party_status := ''ENDED'', party_endedAt := Some 3000\<rparr>]\<rparr>"

text \<open>The same database after the host has paused playback at offset 7.\<close>

definition demo_paused_party :: party where
  "demo_paused_party = demo_party\<lparr>party_playbackOffsetSec := 7\<rparr>"

definition demo_paused_db :: db where
  "demo_paused_db = demo_db\<lparr>db_parties := [demo_paused_party]\<rparr>"

text \<open>The demo party after the host has pressed play at time 2000.\<close>

definition demo_play_calls :: "(env \<times> request) list" where
  "demo_play_calls =
     demo_calls @
     [(demo_env\<lparr>env_now := 2000\<rparr>, SetPlayback ''abc234'' (Some ''h1'') (Some ''play'') Undefined)]"

definition demo_playing_party :: party where
  "demo_playing_party =
     demo_party\<lparr>party_playbackStatus := ''PLAYING'', party_playbackStartedAt := Some 2000\<rparr>"

text \<open>
  The demo party paused at offset 7 and then resumed at time 2000: playing, with 7 seconds
  on the clock when it started.
\<close>

definition demo_resumed_party :: party where
  "demo_resumed_party =
     demo_paused_party\<lparr>party_playbackStatus := ''PLAYING'', party_playbackStartedAt := Some 2000\<rparr>"

definition demo_resumed_db :: db where
  "demo_resumed_db = demo_db\<lparr>db_parties := [demo_resumed_party]\<rparr>"

text \<open>What a read of the ended demo party returns.\<close>

definition demo_view :: "song \<Rightarrow> int \<Rightarrow> string list \<Rightarrow> song_view" where
  "demo_view s n voters = \<lparr>view_song = s, view_voteCount = n, view_voterIds = voters\<rparr>"

definition demo_ended_snapshot :: snapshot where
  "demo_ended_snapshot =
     \<lparr>snap_party = demo_party\<lparr>party_status := ''ENDED'', party_endedAt := Some 3000\<rparr>,
      snap_participants = [demo_host],
      snap_songs = [demo_view (demo_song ''s1'' ''A'' ''x'' 1) 0 [],
                    demo_view (demo_song ''s2'' ''B'' ''y'' 2) 1 [''h1'']]\<rparr>"

section \<open>Sorting and ranking\<close>

lemma mset_insert_by: "mset (insert_by cmp x xs) = add_mset x (mset xs)"
  by (induction xs) auto

lemma mset_sort_by: "mset (sort_by cmp xs) = mset xs"
  by (induction xs) (auto simp: mset_insert_by)

lemma set_insert_by: "set (insert_by cmp x xs) = insert x (set xs)"
  by (induction xs) auto

lemma length_sort_by: "length (sort_by cmp xs) = length xs"
  using mset_sort_by [of cmp xs] by (metis size_mset)

lemma compare_standing_le: "compare_standing a b \<le> 0 \<longleftrightarrow> ranks_before a b"
  by (auto simp: compare_standing_def ranks_before_def)

lemma ranks_before_total: "ranks_before a b \<or> ranks_before b a"
  by (auto simp: ranks_before_def)

lemma ranks_before_trans: "ranks_before a b \<Longrightarrow> ranks_before b c \<Longrightarrow> ranks_before a c"
  by (auto simp: ranks_before_def)

lemma sorted_insert_by:
  "sorted_wrt ranks_before xs \<Longrightarrow> sorted_wrt ranks_before (insert_by compare_standing x xs)"
proof (induction xs)
  case Nil
  then show ?case by simp
next
  case (Cons y ys)
  show ?case
  proof (cases "compare_standing x y \<le> 0")
    case True
    then have xy: "ranks_before x y" by (simp add: compare_standing_le)
    have "\<forall>z\<in>set ys. ranks_before x z"
      using Cons.prems xy ranks_before_trans by auto
    with True xy Cons.prems show ?thesis by simp
  next
    case False
    then have "ranks_before y x"
      using ranks_before_total [of x y] by (simp add: compare_standing_le)
    with False Cons show ?thesis by (auto simp: set_insert_by)
  qed
qed

lemma sorted_sort_by: "sorted_wrt ranks_before (sort_by compare_standing xs)"
  by (induction xs) (auto simp: sorted_insert_by)

lemma length_compute_standings: "length (compute_standings songs m) = length songs"
  by (simp add: compute_standings_def length_sort_by)

lemma nth_compute_standings:
  assumes "i < length songs"
  shows "compute_standings songs m ! i =
           with_rank (i, sort_by compare_standing (map (to_entry m) songs) ! i)"
  using assms by (simp add: compute_standings_def length_sort_by nth_enumerate_eq)

lemma truncate_with_rank: "standing_entry.truncate (with_rank (i, x)) = x"
  by (simp add: with_rank_def standing_entry.truncate_def)

lemma truncate_compute_standings:
  "map standing_entry.truncate (compute_standings songs m) =
     sort_by compare_standing (map (to_entry m) songs)"
proof -
  have "standing_entry.truncate \<circ> with_rank = snd"
    by (auto simp: fun_eq_iff truncate_with_rank)
  then show ?thesis
    by (simp add: compute_standings_def)
qed

lemma ranks_before_truncate:
  "ranks_before (standing_entry.truncate a) (standing_entry.truncate b) = ranks_before a b"
  by (simp add: ranks_before_def standing_entry.truncate_def)

lemma sorted_compute_standings: "sorted_wrt ranks_before (compute_standings songs m)"
proof -
  have "sorted_wrt ranks_before (map standing_entry.truncate (compute_standings songs m))"
    by (simp only: truncate_compute_standings sorted_sort_by)
  then show ?thesis
    by (simp add: sorted_wrt_map ranks_before_truncate)
qed

lemma rank_compute_standings:
  "i < length songs \<Longrightarrow> rank (compute_standings songs m ! i) = int i + 1"
  by (simp add: nth_compute_standings with_rank_def)

lemma first_or_null_None: "first_or_null xs = None \<longleftrightarrow> xs = []"
  by (simp add: first_or_null_def split: list.splits)

lemma first_or_null_nth: "xs \<noteq> [] \<Longrightarrow> first_or_null xs = Some (xs ! 0)"
  by (cases xs) (simp_all add: first_or_null_def)

lemma map_of_count_lookup:
  "map_of (map (\<lambda>k. (k, f k)) ks) k = (if k \<in> set ks then Some (f k) else None)"
  by (induction ks) auto

lemma voteCountMap_of_get:
  "get_or_zero (voteCountMap_of d partyId) sid =
     int (length (filter (\<lambda>v. vote_partyId v = partyId \<and> vote_songId v = sid) (db_votes d)))"
proof -
  define vs where "vs = filter (\<lambda>v. vote_partyId v = partyId) (db_votes d)"
  have eq: "filter (\<lambda>v. vote_partyId v = partyId \<and> vote_songId v = sid) (db_votes d) =
            filter (\<lambda>v. vote_songId v = sid) vs"
    unfolding vs_def by (simp add: conj_commute)
  have lhs: "get_or_zero (voteCountMap_of d partyId) sid =
             (if sid \<in> set (remdups (map vote_songId vs))
              then int (length (filter (\<lambda>v. vote_songId v = sid) vs)) else 0)"
    unfolding get_or_zero_def voteCountMap_of_def Let_def vs_def [symmetric]
    by (simp only: map_of_count_lookup split: if_splits option.splits) simp
  have "sid \<notin> set (remdups (map vote_songId vs)) \<Longrightarrow>
        filter (\<lambda>v. vote_songId v = sid) vs = []"
    by (auto simp: filter_empty_conv)
  then show ?thesis
    unfolding eq lhs by (cases "sid \<in> set (remdups (map vote_songId vs))") simp_all
qed

lemma length_end_standings: "length (end_standings d pid) = length (party_songs d pid)"
  by (simp add: end_standings_def length_compute_standings)

lemma mset_end_standings:
  "mset (map standing_entry.truncate (end_standings d pid)) =
     mset (map (to_entry (voteCountMap_of d pid)) (party_songs d pid))"
proof -
  have "mset (map (to_entry (voteCountMap_of d pid))
               (sort_key song_queuePosition (party_songs d pid))) =
        mset (map (to_entry (voteCountMap_of d pid)) (party_songs d pid))"
    by (simp only: mset_map mset_sort)
  then show ?thesis
    by (simp only: end_standings_def truncate_compute_standings mset_sort_by)
qed

section \<open>Storage\<close>

lemma party_findUnique_SomeD:
  "party_findUnique d code = Some p \<Longrightarrow> p \<in> set (db_parties d) \<and> party_code p = code"
  by (auto simp: party_findUnique_def find_Some_iff)

lemma party_update_found:
  assumes "party_findUnique d code = Some p"
  shows "\<exists>p'. party_update d (party_id p) f = Some (party_map d (party_id p) f, f p') \<and>
              party_id p' = party_id p \<and> p' \<in> set (db_parties d)"
proof -
  have "p \<in> set (db_parties d)"
    using assms by (simp add: party_findUnique_SomeD)
  then obtain p' where "find (\<lambda>q. party_id q = party_id p) (db_parties d) = Some p'"
    by (cases "find (\<lambda>q. party_id q = party_id p) (db_parties d)")
       (auto simp: find_None_iff)
  moreover from this have "party_id p' = party_id p \<and> p' \<in> set (db_parties d)"
    by (auto simp: find_Some_iff)
  ultimately show ?thesis
    by (auto simp: party_update_def)
qed

lemma find_map_preserved:
  assumes "\<And>x. P (g x) = P x"
  shows "find P (map g xs) = map_option g (find P xs)"
  using assms by (induction xs) auto

lemma party_findUnique_party_map:
  assumes "\<And>q. party_code (f q) = party_code q"
  shows "party_findUnique (party_map d pid f) code =
           map_option (\<lambda>q. if party_id q = pid then f q else q) (party_findUnique d code)"
  unfolding party_findUnique_def party_map_def
  by (simp add: find_map_preserved assms)

section \<open>The end handler, branch by branch\<close>

lemma endParty_400:
  "String pf = [] \<Longrightarrow> endParty d e c pf = fail d 400 ''participantId is required''"
  by (simp add: endParty_def)

lemma endParty_404:
  "String pf \<noteq> [] \<Longrightarrow> party_findUnique d (toUpperCase c) = None \<Longrightarrow>
   endParty d e c pf = fail d 404 ''Party not found''"
  by (simp add: endParty_def)

lemma endParty_409:
  "String pf \<noteq> [] \<Longrightarrow> party_findUnique d (toUpperCase c) = Some p \<Longrightarrow>
   party_status p = ''ENDED'' \<Longrightarrow>
   endParty d e c pf = fail d 409 ''Party already ended''"
  by (simp add: endParty_def)

lemma endParty_403:
  "String pf \<noteq> [] \<Longrightarrow> party_findUnique d (toUpperCase c) = Some p \<Longrightarrow>
   party_status p \<noteq> ''ENDED'' \<Longrightarrow> \<not> requireHost d (party_id p) (String pf) \<Longrightarrow>
   endParty d e c pf = fail d 403 ''Only host can end party''"
  by (simp add: endParty_def)

lemma endParty_200:
  assumes "String pf \<noteq> []" "party_findUnique d (toUpperCase c) = Some p"
    "party_status p \<noteq> ''ENDED''" "requireHost d (party_id p) (String pf)"
  shows "endParty d e c pf =
           (ended_db d (party_id p) (env_now e),
            [(toUpperCase c,
              PartyEnded (first_or_null (end_standings d (party_id p)))
                (end_standings d (party_id p))),
             (toUpperCase c, PartyStateUpdated None ''ENDED'')] @
              emitPartySnapshot (ended_db d (party_id p) (env_now e)) (toUpperCase c),
            (200, EndBody (first_or_null (end_standings d (party_id p)))
                    (end_standings d (party_id p))))"
proof -
  obtain p' where
    "party_update d (party_id p)
       (\<lambda>q. q\<lparr>party_status := ''ENDED'', party_endedAt := Some (env_now e)\<rparr>) =
     Some (ended_db d (party_id p) (env_now e),
           p'\<lparr>party_status := ''ENDED'', party_endedAt := Some (env_now e)\<rparr>)"
    using party_update_found [OF assms(2)] unfolding ended_db_def by blast
  with assms show ?thesis
    by (simp add: endParty_def Let_def)
qed

lemma endParty_cases:
  obtains
    (missing) "String pf = []"
      "endParty d e c pf = fail d 400 ''participantId is required''"
  | (unknown) "String pf \<noteq> []" "party_findUnique d (toUpperCase c) = None"
      "endParty d e c pf = fail d 404 ''Party not found''"
  | (ended) p where "String pf \<noteq> []" "party_findUnique d (toUpperCase c) = Some p"
      "party_status p = ''ENDED''"
      "endParty d e c pf = fail d 409 ''Party already ended''"
  | (not_host) p where "String pf \<noteq> []" "party_findUnique d (toUpperCase c) = Some p"
      "party_status p \<noteq> ''ENDED''" "\<not> requireHost d (party_id p) (String pf)"
      "endParty d e c pf = fail d 403 ''Only host can end party''"
  | (ok) p where "String pf \<noteq> []" "party_findUnique d (toUpperCase c) = Some p"
      "party_status p \<noteq> ''ENDED''" "requireHost d (party_id p) (String pf)"
      "endParty d e c pf =
           (ended_db d (party_id p) (env_now e),
            [(toUpperCase c,
              PartyEnded (first_or_null (end_standings d (party_id p)))
                (end_standings d (party_id p))),
             (toUpperCase c, PartyStateUpdated None ''ENDED'')] @
              emitPartySnapshot (ended_db d (party_id p) (env_now e)) (toUpperCase c),
            (200, EndBody (first_or_null (end_standings d (party_id p)))
                    (end_standings d (party_id p))))"
proof (cases "String pf = []")
  case True
  then show ?thesis using missing endParty_400 by blast
next
  case nonempty: False
  show ?thesis
  proof (cases "party_findUnique d (toUpperCase c)")
    case None
    with nonempty show ?thesis using unknown endParty_404 by blast
  next
    case (Some p)
    show ?thesis
    proof (cases "party_status p = ''ENDED''")
      case True
      with nonempty Some show ?thesis using ended endParty_409 by blast
    next
      case active: False
      show ?thesis
      proof (cases "requireHost d (party_id p) (String pf)")
        case True
        with nonempty Some active show ?thesis using ok endParty_200 by blast
      next
        case False
        with nonempty Some active show ?thesis using not_host endParty_403 by blast
      qed
    qed
  qed
qed

section \<open>Evaluating the concrete party\<close>

lemma demo_db_reached: "run empty_db demo_calls = demo_db"
  by code_simp

lemma demo_endParty:
  "endParty demo_db (demo_env\<lparr>env_now := 3000\<rparr>) ''abc234'' (Some ''h1'') =
     (demo_ended_db,
      [(''ABC234'', PartyEnded (Some (demo_standings ! 0)) demo_standings),
       (''ABC234'', PartyStateUpdated None ''ENDED'')] @
        emitPartySnapshot demo_ended_db ''ABC234'',
      (200, EndBody (Some (demo_standings ! 0)) demo_standings))"
  by code_simp

section \<open>The standings at the end of a party\<close>

text \<open>
  C1. The standings the end handler returns are the party's songs, each with its vote
  count, ordered by vote count descending and then by queue position ascending; the entry
  at index i has rank i + 1; the winner is the first entry, and it is null exactly when
  the party has no songs.
\<close>

theorem endParty_standings_ranked:
  assumes "snd (snd (endParty d e code_param participantId_field)) =
             (200, EndBody winner standings)"
  shows "\<exists>p. party_findUnique d (toUpperCase code_param) = Some p \<and>
           mset (map standing_entry.truncate standings) =
             mset (map (to_entry (voteCountMap_of d (party_id p)))
                       (party_songs d (party_id p))) \<and>
           sorted_wrt ranks_before standings \<and>
           (\<forall>i < length standings. rank (standings ! i) = int i + 1) \<and>
           winner = (if standings = [] then None else Some (standings ! 0)) \<and>
           (winner = None \<longleftrightarrow> party_songs d (party_id p) = [])"
proof (cases rule: endParty_cases [where d = d and e = e and c = code_param
                                      and pf = participantId_field])
  case (ok p)
  let ?st = "end_standings d (party_id p)"
  from ok(5) assms have st: "standings = ?st" and w: "winner = first_or_null ?st"
    by auto
  have len: "length ?st = length (party_songs d (party_id p))"
    by (rule length_end_standings)
  have ranks: "\<forall>i < length ?st. rank (?st ! i) = int i + 1"
    by (simp add: end_standings_def length_compute_standings rank_compute_standings)
  have win: "first_or_null ?st = (if ?st = [] then None else Some (?st ! 0))"
    by (simp add: first_or_null_None first_or_null_nth)
  have none: "first_or_null ?st = None \<longleftrightarrow> party_songs d (party_id p) = []"
    using len by (simp add: first_or_null_None flip: length_0_conv)
  have "sorted_wrt ranks_before ?st"
    by (simp add: end_standings_def sorted_compute_standings)
  with ok(2) st w ranks win none mset_end_standings [of d "party_id p"]
  show ?thesis by simp
qed (use assms in \<open>simp_all add: fail_def\<close>)

theorem endParty_standings_ranked_witness:
  "snd (snd (endParty demo_db (demo_env\<lparr>env_now := 3000\<rparr>) ''abc234'' (Some ''h1''))) =
     (200, EndBody (Some (demo_standings ! 0)) demo_standings) \<and>
   (\<exists>p. party_findUnique demo_db (toUpperCase ''abc234'') = Some p \<and>
      mset (map standing_entry.truncate demo_standings) =
        mset (map (to_entry (voteCountMap_of demo_db (party_id p)))
                  (party_songs demo_db (party_id p))) \<and>
      sorted_wrt ranks_before demo_standings \<and>
      (\<forall>i < length demo_standings. rank (demo_standings ! i) = int i + 1) \<and>
      Some (demo_standings ! 0) =
        (if demo_standings = [] then None else Some (demo_standings ! 0)) \<and>
      (Some (demo_standings ! 0) = None \<longleftrightarrow> party_songs demo_db (party_id p) = []))"
proof -
  have h: "snd (snd (endParty demo_db (demo_env\<lparr>env_now := 3000\<rparr>) ''abc234'' (Some ''h1''))) =
             (200, EndBody (Some (demo_standings ! 0)) demo_standings)"
    by (simp add: demo_endParty)
  from endParty_standings_ranked [OF h] h show ?thesis by blast
qed

section \<open>The playback handler, branch by branch\<close>

lemma setPlayback_400:
  "String pf = [] \<or> toUpperCase (String af) = [] \<Longrightarrow>
   setPlayback d e c pf af off = fail d 400 ''participantId and action are required''"
  by (auto simp: setPlayback_def)

lemma setPlayback_404:
  "String pf \<noteq> [] \<Longrightarrow> toUpperCase (String af) \<noteq> [] \<Longrightarrow>
   party_findUnique d (toUpperCase c) = None \<Longrightarrow>
   setPlayback d e c pf af off = fail d 404 ''Party not found''"
  by (simp add: setPlayback_def)

lemma setPlayback_409:
  "String pf \<noteq> [] \<Longrightarrow> toUpperCase (String af) \<noteq> [] \<Longrightarrow>
   party_findUnique d (toUpperCase c) = Some p \<Longrightarrow> party_status p = ''ENDED'' \<Longrightarrow>
   setPlayback d e c pf af off = fail d 409 ''Party already ended''"
  by (simp add: setPlayback_def)

lemma setPlayback_403:
  "String pf \<noteq> [] \<Longrightarrow> toUpperCase (String af) \<noteq> [] \<Longrightarrow>
   party_findUnique d (toUpperCase c) = Some p \<Longrightarrow> party_status p \<noteq> ''ENDED'' \<Longrightarrow>
   \<not> requireHost d (party_id p) (String pf) \<Longrightarrow>
   setPlayback d e c pf af off = fail d 403 ''Only host can control playback''"
  by (simp add: setPlayback_def)

lemma setPlayback_bad_action:
  "String pf \<noteq> [] \<Longrightarrow> toUpperCase (String af) \<noteq> [] \<Longrightarrow>
   party_findUnique d (toUpperCase c) = Some p \<Longrightarrow> party_status p \<noteq> ''ENDED'' \<Longrightarrow>
   requireHost d (party_id p) (String pf) \<Longrightarrow>
   toUpperCase (String af) \<noteq> ''PLAY'' \<Longrightarrow> toUpperCase (String af) \<noteq> ''PAUSE'' \<Longrightarrow>
   setPlayback d e c pf af off = fail d 400 ''action must be PLAY or PAUSE''"
  by (simp add: setPlayback_def)

lemma setPlayback_200:
  assumes "String pf \<noteq> []" "party_findUnique d (toUpperCase c) = Some p"
    "party_status p \<noteq> ''ENDED''" "requireHost d (party_id p) (String pf)"
    "toUpperCase (String af) = ''PLAY'' \<and> st = ''PLAYING'' \<and> sa = Some (env_now e) \<or>
     toUpperCase (String af) = ''PAUSE'' \<and> st = ''PAUSED'' \<and> sa = None"
    "so = offset_or_current (Number off) (currentOffsetSec p (env_now e))"
  shows "setPlayback d e c pf af off =
           (playback_db d (party_id p) st sa so,
            (toUpperCase c, PlaybackUpdated st sa so) #
              emitPartySnapshot (playback_db d (party_id p) st sa so) (toUpperCase c),
            (200, PlaybackBody st sa so))"
proof -
  obtain p' where
    "party_update d (party_id p)
       (\<lambda>q. q\<lparr>party_playbackStatus := st, party_playbackStartedAt := sa,
               party_playbackOffsetSec := so\<rparr>) =
     Some (playback_db d (party_id p) st sa so,
           p'\<lparr>party_playbackStatus := st, party_playbackStartedAt := sa,
               party_playbackOffsetSec := so\<rparr>)"
    using party_update_found [OF assms(2)] unfolding playback_db_def by blast
  with assms show ?thesis
    by (auto simp: setPlayback_def Let_def)
qed

lemma setPlayback_cases:
  obtains
    (missing) "String pf = [] \<or> toUpperCase (String af) = []"
      "setPlayback d e c pf af off = fail d 400 ''participantId and action are required''"
  | (unknown) "String pf \<noteq> []" "toUpperCase (String af) \<noteq> []"
      "party_findUnique d (toUpperCase c) = None"
      "setPlayback d e c pf af off = fail d 404 ''Party not found''"
  | (ended) p where "String pf \<noteq> []" "toUpperCase (String af) \<noteq> []"
      "party_findUnique d (toUpperCase c) = Some p" "party_status p = ''ENDED''"
      "setPlayback d e c pf af off = fail d 409 ''Party already ended''"
  | (not_host) p where "String pf \<noteq> []" "toUpperCase (String af) \<noteq> []"
      "party_findUnique d (toUpperCase c) = Some p" "party_status p \<noteq> ''ENDED''"
      "\<not> requireHost d (party_id p) (String pf)"
      "setPlayback d e c pf af off = fail d 403 ''Only host can control playback''"
  | (bad_action) p where "String pf \<noteq> []" "toUpperCase (String af) \<noteq> []"
      "party_findUnique d (toUpperCase c) = Some p" "party_status p \<noteq> ''ENDED''"
      "requireHost d (party_id p) (String pf)"
      "toUpperCase (String af) \<noteq> ''PLAY''" "toUpperCase (String af) \<noteq> ''PAUSE''"
      "setPlayback d e c pf af off = fail d 400 ''action must be PLAY or PAUSE''"
  | (ok) p st sa so where "String pf \<noteq> []"
      "party_findUnique d (toUpperCase c) = Some p" "party_status p \<noteq> ''ENDED''"
      "requireHost d (party_id p) (String pf)"
      "toUpperCase (String af) = ''PLAY'' \<and> st = ''PLAYING'' \<and> sa = Some (env_now e) \<or>
       toUpperCase (String af) = ''PAUSE'' \<and> st = ''PAUSED'' \<and> sa = None"
      "so = offset_or_current (Number off) (currentOffsetSec p (env_now e))"
      "setPlayback d e c pf af off =
           (playback_db d (party_id p) st sa so,
            (toUpperCase c, PlaybackUpdated st sa so) #
              emitPartySnapshot (playback_db d (party_id p) st sa so) (toUpperCase c),
            (200, PlaybackBody st sa so))"
proof (cases "String pf = [] \<or> toUpperCase (String af) = []")
  case True
  then show ?thesis using missing setPlayback_400 by blast
next
  case False
  then have ne: "String pf \<noteq> []" "toUpperCase (String af) \<noteq> []" by simp_all
  show ?thesis
  proof (cases "party_findUnique d (toUpperCase c)")
    case None
    with ne show ?thesis using unknown setPlayback_404 by blast
  next
    case (Some p)
    show ?thesis
    proof (cases "party_status p = ''ENDED''")
      case True
      with ne Some show ?thesis using ended setPlayback_409 by blast
    next
      case active: False
      show ?thesis
      proof (cases "requireHost d (party_id p) (String pf)")
        case False
        with ne Some active show ?thesis using not_host setPlayback_403 by blast
      next
        case host: True
        consider (play) "toUpperCase (String af) = ''PLAY''"
          | (pause) "toUpperCase (String af) = ''PAUSE''"
          | (other) "toUpperCase (String af) \<noteq> ''PLAY''" "toUpperCase (String af) \<noteq> ''PAUSE''"
          by blast
        then show ?thesis
        proof cases
          case play
          show ?thesis
            by (rule ok [OF ne(1) Some active host _ refl setPlayback_200
                  [OF ne(1) Some active host _ refl],
                  of "''PLAYING''" "Some (env_now e)"])
               (simp_all add: play)
        next
          case pause
          show ?thesis
            by (rule ok [OF ne(1) Some active host _ refl setPlayback_200
                  [OF ne(1) Some active host _ refl],
                  of "''PAUSED''" None])
               (simp_all add: pause)
        next
          case other
          with ne Some active host show ?thesis
            using bad_action setPlayback_bad_action by blast
        qed
      qed
    qed
  qed
qed

lemma party_findUnique_playback_db:
  "party_findUnique d code = Some p \<Longrightarrow>
   party_findUnique (playback_db d (party_id p) st sa so) code =
     Some (p\<lparr>party_playbackStatus := st, party_playbackStartedAt := sa,
             party_playbackOffsetSec := so\<rparr>)"
  unfolding playback_db_def by (simp add: party_findUnique_party_map)

lemma offset_or_current_cases:
  "offset_or_current n cur =
     (case n of Finite x \<Rightarrow> (if x \<ge> 0 then x else 0) | NaN \<Rightarrow> cur
      | PosInfinity \<Rightarrow> cur | NegInfinity \<Rightarrow> cur)"
  by (cases n) (simp_all add: offset_or_current_def max_def)

lemma currentOffsetSec_spec_position:
  assumes "playback_ok p" "party_playbackStatus p = ''PLAYING'' \<or> party_playbackStatus p = ''PAUSED''"
    "party_playbackStartedAt p \<noteq> Some 0"
  shows "currentOffsetSec p t = spec_position p t"
  using assms
  by (auto simp: currentOffsetSec_def spec_position_def playback_ok_def Let_def
           split: option.splits)

lemma demo_paused_db_reached:
  "fst (setPlayback demo_db (demo_env\<lparr>env_now := 1500\<rparr>) ''abc234'' (Some ''h1'')
          (Some ''pause'') (Num (Finite 7))) = demo_paused_db"
  by code_simp

lemma demo_play_negative:
  "setPlayback demo_paused_db (demo_env\<lparr>env_now := 2000\<rparr>) ''abc234'' (Some ''h1'')
     (Some ''play'') (Num (Finite (- 5))) =
   (playback_db demo_paused_db ''p1'' ''PLAYING'' (Some 2000) 0,
    (''ABC234'', PlaybackUpdated ''PLAYING'' (Some 2000) 0) #
      emitPartySnapshot (playback_db demo_paused_db ''p1'' ''PLAYING'' (Some 2000) 0) ''ABC234'',
    (200, PlaybackBody ''PLAYING'' (Some 2000) 0))"
  by code_simp

lemma demo_resumed_db_reached:
  "fst (setPlayback demo_paused_db (demo_env\<lparr>env_now := 2000\<rparr>) ''abc234'' (Some ''h1'')
          (Some ''play'') Undefined) = demo_resumed_db"
  by code_simp

text \<open>
  C4, as the code has it. A Play or Pause by the host of an active party stores and
  returns: status PLAYING and start time now for Play, status PAUSED and no start time for
  Pause; and as offset
  \<^item> the explicit offset when it is a finite number that is not negative,
  \<^item> 0 when it is a finite negative number or JSON null,
  \<^item> otherwise (offset absent, NaN or infinite) the prior offset plus the time elapsed,
    \<open>max 0 ((now - startedAt) / 1000)\<close>, when the prior status is PLAYING and the prior
    start time is set and is not 0 ms, and the prior offset alone in every other case.
  That fallback is the position of the specification whenever the prior state satisfies
  the clock invariant with a start time other than 0 ms.
\<close>

theorem setPlayback_play_pause:
  assumes "String participantId_field \<noteq> []"
    and "party_findUnique d (toUpperCase code_param) = Some p"
    and "party_status p \<noteq> ''ENDED''"
    and "requireHost d (party_id p) (String participantId_field)"
    and "toUpperCase (String action_field) = ''PLAY'' \<and> st = ''PLAYING'' \<and> sa = Some (env_now e) \<or>
         toUpperCase (String action_field) = ''PAUSE'' \<and> st = ''PAUSED'' \<and> sa = None"
    and "fallback =
           party_playbackOffsetSec p +
           (case party_playbackStartedAt p of
              None \<Rightarrow> 0
            | Some t \<Rightarrow>
                if party_playbackStatus p = ''PLAYING'' \<and> t \<noteq> 0
                then max 0 (real_of_int (env_now e - t) / 1000)
                else 0)"
    and "base =
           (case offsetSec_field of
              Undefined \<Rightarrow> fallback
            | Null \<Rightarrow> 0
            | Num (Finite x) \<Rightarrow> (if x \<ge> 0 then x else 0)
            | Num NaN \<Rightarrow> fallback
            | Num PosInfinity \<Rightarrow> fallback
            | Num NegInfinity \<Rightarrow> fallback)"
  shows "snd (snd (setPlayback d e code_param participantId_field action_field offsetSec_field)) =
           (200, PlaybackBody st sa base) \<and>
         party_findUnique
           (fst (setPlayback d e code_param participantId_field action_field offsetSec_field))
           (toUpperCase code_param) =
           Some (p\<lparr>party_playbackStatus := st, party_playbackStartedAt := sa,
                   party_playbackOffsetSec := base\<rparr>) \<and>
         (playback_ok p \<and>
          (party_playbackStatus p = ''PLAYING'' \<or> party_playbackStatus p = ''PAUSED'') \<and>
          party_playbackStartedAt p \<noteq> Some 0 \<longrightarrow>
            fallback = spec_position p (env_now e))"
proof -
  have fallback: "fallback = currentOffsetSec p (env_now e)"
    using assms(6) by (simp add: currentOffsetSec_def Let_def)
  have base: "base = offset_or_current (Number offsetSec_field) (currentOffsetSec p (env_now e))"
    using assms(7) fallback
    by (simp add: offset_or_current_cases split: jsvalue.splits jsnum.splits)
  have "fallback = spec_position p (env_now e)"
    if "playback_ok p"
      "party_playbackStatus p = ''PLAYING'' \<or> party_playbackStatus p = ''PAUSED''"
      "party_playbackStartedAt p \<noteq> Some 0"
    using currentOffsetSec_spec_position [OF that] fallback by simp
  then show ?thesis
    by (simp add: setPlayback_200 [OF assms(1-5) base] party_findUnique_playback_db [OF assms(2)])
qed

theorem setPlayback_play_pause_witness:
  "snd (snd (setPlayback demo_resumed_db (demo_env\<lparr>env_now := 5000\<rparr>) ''abc234'' (Some ''h1'')
               (Some ''pause'') Undefined)) =
     (200, PlaybackBody ''PAUSED'' None 10) \<and>
   party_findUnique
     (fst (setPlayback demo_resumed_db (demo_env\<lparr>env_now := 5000\<rparr>) ''abc234'' (Some ''h1'')
             (Some ''pause'') Undefined)) (toUpperCase ''abc234'') =
     Some (demo_resumed_party\<lparr>party_playbackStatus := ''PAUSED'',
             party_playbackStartedAt := None, party_playbackOffsetSec := 10\<rparr>) \<and>
   party_playbackOffsetSec demo_resumed_party = 7 \<and>
   party_playbackStartedAt demo_resumed_party = Some 2000 \<and>
   spec_position demo_resumed_party 5000 = 10"
proof -
  have 1: "String (Some ''h1'') \<noteq> []" by simp
  have 2: "party_findUnique demo_resumed_db (toUpperCase ''abc234'') = Some demo_resumed_party"
    by code_simp
  have 3: "party_status demo_resumed_party \<noteq> ''ENDED''" by code_simp
  have 4: "requireHost demo_resumed_db (party_id demo_resumed_party) (String (Some ''h1''))"
    by code_simp
  have 5: "toUpperCase (String (Some ''pause'')) = ''PLAY'' \<and> ''PAUSED'' = ''PLAYING'' \<and>
           None = Some (env_now (demo_env\<lparr>env_now := 5000\<rparr>)) \<or>
           toUpperCase (String (Some ''pause'')) = ''PAUSE'' \<and> ''PAUSED'' = ''PAUSED'' \<and>
           (None :: timestamp option) = None"
    by code_simp
  have 6: "(10::real) =
           party_playbackOffsetSec demo_resumed_party +
           (case party_playbackStartedAt demo_resumed_party of
              None \<Rightarrow> 0
            | Some t \<Rightarrow>
                if party_playbackStatus demo_resumed_party = ''PLAYING'' \<and> t \<noteq> 0
                then max 0 (real_of_int (env_now (demo_env\<lparr>env_now := 5000\<rparr>) - t) / 1000)
                else 0)"
    by code_simp
  have 7: "(10::real) =
           (case Undefined of
              Undefined \<Rightarrow> 10
            | Null \<Rightarrow> 0
            | Num (Finite x) \<Rightarrow> (if x \<ge> 0 then x else 0)
            | Num NaN \<Rightarrow> 10
            | Num PosInfinity \<Rightarrow> 10
            | Num NegInfinity \<Rightarrow> 10)"
    by simp
  have ok: "playback_ok demo_resumed_party \<and>
          (party_playbackStatus demo_resumed_party = ''PLAYING'' \<or>
           party_playbackStatus demo_resumed_party = ''PAUSED'') \<and>
          party_playbackStartedAt demo_resumed_party \<noteq> Some 0"
    by code_simp
  have fields: "party_playbackOffsetSec demo_resumed_party = 7 \<and>
                party_playbackStartedAt demo_resumed_party = Some 2000"
    by code_simp
  have now: "env_now (demo_env\<lparr>env_now := 5000\<rparr>) = 5000" by simp
  from setPlayback_play_pause [OF 1 2 3 4 5 6 7] ok fields now show ?thesis
    by simp
qed

text \<open>
  C4 as stated fails for a finite negative offset: on the party paused at offset 7, Play
  with offset -5 stores offset 0, where the claim has the position now, which is 7.
\<close>

theorem setPlayback_negative_offset_counterexample:
  "snd (snd (setPlayback demo_paused_db (demo_env\<lparr>env_now := 2000\<rparr>) ''abc234'' (Some ''h1'')
               (Some ''play'') (Num (Finite (- 5))))) =
     (200, PlaybackBody ''PLAYING'' (Some 2000) 0) \<and>
   party_findUnique demo_paused_db ''ABC234'' = Some demo_paused_party \<and>
   spec_base (Num (Finite (- 5))) demo_paused_party 2000 = 7"
proof -
  have "party_findUnique demo_paused_db ''ABC234'' = Some demo_paused_party"
    by code_simp
  moreover have "spec_base (Num (Finite (- 5))) demo_paused_party 2000 = 7"
    by code_simp
  ultimately show ?thesis
    by (simp add: demo_play_negative)
qed

text \<open>
  C10. A playback call on an active party by its host whose upper-cased action is neither
  PLAY nor PAUSE is answered 400 and changes nothing; and the answer
  "action must be PLAY or PAUSE" is given exactly when the required fields are present,
  the party exists, it has not ended, the caller is its host, and the action is neither.
\<close>

theorem setPlayback_invalid_action:
  "(party_findUnique d (toUpperCase code_param) = Some p \<and> party_status p \<noteq> ''ENDED'' \<and>
    requireHost d (party_id p) (String participantId_field) \<and>
    toUpperCase (String action_field) \<noteq> ''PLAY'' \<and>
    toUpperCase (String action_field) \<noteq> ''PAUSE'' \<longrightarrow>
      (\<exists>msg. setPlayback d e code_param participantId_field action_field offsetSec_field =
               (d, [], (400, ErrorBody msg)))) \<and>
   (snd (snd (setPlayback d e code_param participantId_field action_field offsetSec_field)) =
      (400, ErrorBody ''action must be PLAY or PAUSE'') \<longleftrightarrow>
    String participantId_field \<noteq> [] \<and> toUpperCase (String action_field) \<noteq> [] \<and>
    toUpperCase (String action_field) \<noteq> ''PLAY'' \<and>
    toUpperCase (String action_field) \<noteq> ''PAUSE'' \<and>
    (\<exists>q. party_findUnique d (toUpperCase code_param) = Some q \<and> party_status q \<noteq> ''ENDED'' \<and>
         requireHost d (party_id q) (String participantId_field)))"
  by (cases rule: setPlayback_cases [where d = d and e = e and c = code_param
        and pf = participantId_field and af = action_field and off = offsetSec_field])
     (auto simp: fail_def)

theorem setPlayback_invalid_action_witness:
  "(party_findUnique demo_db (toUpperCase ''abc234'') = Some demo_party \<and>
    party_status demo_party \<noteq> ''ENDED'' \<and>
    requireHost demo_db (party_id demo_party) (String (Some ''h1'')) \<and>
    toUpperCase (String (Some ''stop'')) \<noteq> ''PLAY'' \<and>
    toUpperCase (String (Some ''stop'')) \<noteq> ''PAUSE'') \<and>
   (\<exists>msg. setPlayback demo_db demo_env ''abc234'' (Some ''h1'') (Some ''stop'') Undefined =
            (demo_db, [], (400, ErrorBody msg))) \<and>
   snd (snd (setPlayback demo_db demo_env ''abc234'' (Some ''h1'') (Some ''stop'') Undefined)) =
     (400, ErrorBody ''action must be PLAY or PAUSE'')"
proof -
  have h: "party_findUnique demo_db (toUpperCase ''abc234'') = Some demo_party \<and>
    party_status demo_party \<noteq> ''ENDED'' \<and>
    requireHost demo_db (party_id demo_party) (String (Some ''h1'')) \<and>
    toUpperCase (String (Some ''stop'')) \<noteq> ''PLAY'' \<and>
    toUpperCase (String (Some ''stop'')) \<noteq> ''PAUSE''"
    by code_simp
  have n: "String (Some ''h1'') \<noteq> [] \<and> toUpperCase (String (Some ''stop'')) \<noteq> []"
    by code_simp
  from setPlayback_invalid_action [of demo_db "''abc234''" demo_party "Some ''h1''"
         "Some ''stop''" demo_env Undefined] h n
  show ?thesis by blast
qed

section \<open>The add handler, branch by branch\<close>

lemma addSong_400:
  "String pf = [] \<or> trim (String tf) = [] \<or> trim (String af) = [] \<Longrightarrow>
   addSong d e c pf tf af awf pvf exf =
     fail d 400 ''participantId, title and artist are required''"
  by (auto simp: addSong_def)

lemma addSong_404:
  "String pf \<noteq> [] \<Longrightarrow> trim (String tf) \<noteq> [] \<Longrightarrow> trim (String af) \<noteq> [] \<Longrightarrow>
   party_findUnique d (toUpperCase c) = None \<Longrightarrow>
   addSong d e c pf tf af awf pvf exf = fail d 404 ''Party not found''"
  by (simp add: addSong_def)

lemma addSong_409:
  "String pf \<noteq> [] \<Longrightarrow> trim (String tf) \<noteq> [] \<Longrightarrow> trim (String af) \<noteq> [] \<Longrightarrow>
   party_findUnique d (toUpperCase c) = Some p \<Longrightarrow> party_status p = ''ENDED'' \<Longrightarrow>
   addSong d e c pf tf af awf pvf exf = fail d 409 ''Party already ended''"
  by (simp add: addSong_def)

lemma addSong_403:
  "String pf \<noteq> [] \<Longrightarrow> trim (String tf) \<noteq> [] \<Longrightarrow> trim (String af) \<noteq> [] \<Longrightarrow>
   party_findUnique d (toUpperCase c) = Some p \<Longrightarrow> party_status p \<noteq> ''ENDED'' \<Longrightarrow>
   participant_findFirst d (String pf) (party_id p) = None \<Longrightarrow>
   addSong d e c pf tf af awf pvf exf = fail d 403 ''Participant is not in this party''"
  by (simp add: addSong_def)

lemma addSong_full:
  "String pf \<noteq> [] \<Longrightarrow> trim (String tf) \<noteq> [] \<Longrightarrow> trim (String af) \<noteq> [] \<Longrightarrow>
   party_findUnique d (toUpperCase c) = Some p \<Longrightarrow> party_status p \<noteq> ''ENDED'' \<Longrightarrow>
   participant_findFirst d (String pf) (party_id p) \<noteq> None \<Longrightarrow> queue_full d p \<Longrightarrow>
   addSong d e c pf tf af awf pvf exf = fail d 409 ''Party has reached max songs''"
  by (auto simp: addSong_def queue_full_def Let_def)

lemma addSong_created:
  assumes "String pf \<noteq> []" "trim (String tf) \<noteq> []" "trim (String af) \<noteq> []"
    "party_findUnique d (toUpperCase c) = Some p" "party_status p \<noteq> ''ENDED''"
    "participant_findFirst d (String pf) (party_id p) \<noteq> None" "\<not> queue_full d p"
  shows "addSong d e c pf tf af awf pvf exf =
           (case song_create d (added_song d e p pf tf af awf pvf exf) of
              None \<Rightarrow> fail d 500 ''Failed to add song''
            | Some d' \<Rightarrow>
                (d', emitPartySnapshot d' (toUpperCase c) @ [(toUpperCase c, QueueUpdated (env_id1 e))],
                 (201, SongBody (added_song d e p pf tf af awf pvf exf) 0 [])))"
  using assms
  by (auto simp: addSong_def queue_full_def Let_def added_song_def split: option.splits)

lemma song_create_cases:
  "song_create d s = None \<or> song_create d s = Some (d\<lparr>db_songs := db_songs d @ [s]\<rparr>)"
  by (simp add: song_create_def)

lemma addSong_cases:
  obtains
    (missing) "String pf = [] \<or> trim (String tf) = [] \<or> trim (String af) = []"
      "addSong d e c pf tf af awf pvf exf =
         fail d 400 ''participantId, title and artist are required''"
  | (unknown) "String pf \<noteq> []" "trim (String tf) \<noteq> []" "trim (String af) \<noteq> []"
      "party_findUnique d (toUpperCase c) = None"
      "addSong d e c pf tf af awf pvf exf = fail d 404 ''Party not found''"
  | (ended) p where "String pf \<noteq> []" "trim (String tf) \<noteq> []" "trim (String af) \<noteq> []"
      "party_findUnique d (toUpperCase c) = Some p" "party_status p = ''ENDED''"
      "addSong d e c pf tf af awf pvf exf = fail d 409 ''Party already ended''"
  | (not_member) p where "String pf \<noteq> []" "trim (String tf) \<noteq> []" "trim (String af) \<noteq> []"
      "party_findUnique d (toUpperCase c) = Some p" "party_status p \<noteq> ''ENDED''"
      "participant_findFirst d (String pf) (party_id p) = None"
      "addSong d e c pf tf af awf pvf exf = fail d 403 ''Participant is not in this party''"
  | (full) p where "String pf \<noteq> []" "trim (String tf) \<noteq> []" "trim (String af) \<noteq> []"
      "party_findUnique d (toUpperCase c) = Some p" "party_status p \<noteq> ''ENDED''"
      "participant_findFirst d (String pf) (party_id p) \<noteq> None" "queue_full d p"
      "addSong d e c pf tf af awf pvf exf = fail d 409 ''Party has reached max songs''"
  | (rejected) p where "String pf \<noteq> []" "trim (String tf) \<noteq> []" "trim (String af) \<noteq> []"
      "party_findUnique d (toUpperCase c) = Some p" "party_status p \<noteq> ''ENDED''"
      "participant_findFirst d (String pf) (party_id p) \<noteq> None" "\<not> queue_full d p"
      "song_create d (added_song d e p pf tf af awf pvf exf) = None"
      "addSong d e c pf tf af awf pvf exf = fail d 500 ''Failed to add song''"
  | (ok) p d' where "String pf \<noteq> []" "trim (String tf) \<noteq> []" "trim (String af) \<noteq> []"
      "party_findUnique d (toUpperCase c) = Some p" "party_status p \<noteq> ''ENDED''"
      "participant_findFirst d (String pf) (party_id p) \<noteq> None" "\<not> queue_full d p"
      "d' = d\<lparr>db_songs := db_songs d @ [added_song d e p pf tf af awf pvf exf]\<rparr>"
      "addSong d e c pf tf af awf pvf exf =
         (d', emitPartySnapshot d' (toUpperCase c) @ [(toUpperCase c, QueueUpdated (env_id1 e))],
          (201, SongBody (added_song d e p pf tf af awf pvf exf) 0 []))"
proof (cases "String pf = [] \<or> trim (String tf) = [] \<or> trim (String af) = []")
  case True
  then show ?thesis using missing addSong_400 by blast
next
  case False
  then have ne: "String pf \<noteq> []" "trim (String tf) \<noteq> []" "trim (String af) \<noteq> []"
    by simp_all
  show ?thesis
  proof (cases "party_findUnique d (toUpperCase c)")
    case None
    with ne show ?thesis using unknown addSong_404 by blast
  next
    case (Some p)
    show ?thesis
    proof (cases "party_status p = ''ENDED''")
      case True
      with ne Some show ?thesis using ended addSong_409 by blast
    next
      case active: False
      show ?thesis
      proof (cases "participant_findFirst d (String pf) (party_id p) = None")
        case True
        with ne Some active show ?thesis using not_member addSong_403 by blast
      next
        case member: False
        show ?thesis
        proof (cases "queue_full d p")
          case True
          with ne Some active member show ?thesis using full addSong_full by blast
        next
          case room: False
          note eq = addSong_created [OF ne Some active member room, of e awf pvf exf]
          show ?thesis
          proof (cases "song_create d (added_song d e p pf tf af awf pvf exf)")
            case None
            with eq have "addSong d e c pf tf af awf pvf exf = fail d 500 ''Failed to add song''"
              by simp
            with ne Some active member room None show ?thesis using rejected by blast
          next
            case (Some d')
            with song_create_cases [of d "added_song d e p pf tf af awf pvf exf"]
            have d': "d' = d\<lparr>db_songs := db_songs d @ [added_song d e p pf tf af awf pvf exf]\<rparr>"
              by simp
            from eq Some have "addSong d e c pf tf af awf pvf exf =
              (d', emitPartySnapshot d' (toUpperCase c) @ [(toUpperCase c, QueueUpdated (env_id1 e))],
               (201, SongBody (added_song d e p pf tf af awf pvf exf) 0 []))"
              by simp
            with ne \<open>party_findUnique d (toUpperCase c) = Some p\<close> active member room d'
            show ?thesis using ok by blast
          qed
        qed
      qed
    qed
  qed
qed

section \<open>The vote handler, branch by branch\<close>

lemma toggleVote_400:
  "String pf = [] \<or> String sf = [] \<Longrightarrow>
   toggleVote d e c pf sf = fail d 400 ''participantId and songId are required''"
  by (auto simp: toggleVote_def)

lemma toggleVote_404:
  "String pf \<noteq> [] \<Longrightarrow> String sf \<noteq> [] \<Longrightarrow> party_findUnique d (toUpperCase c) = None \<Longrightarrow>
   toggleVote d e c pf sf = fail d 404 ''Party not found''"
  by (simp add: toggleVote_def)

lemma toggleVote_409:
  "String pf \<noteq> [] \<Longrightarrow> String sf \<noteq> [] \<Longrightarrow>
   party_findUnique d (toUpperCase c) = Some p \<Longrightarrow> party_status p = ''ENDED'' \<Longrightarrow>
   toggleVote d e c pf sf = fail d 409 ''Party already ended''"
  by (simp add: toggleVote_def)

lemma toggleVote_403:
  "String pf \<noteq> [] \<Longrightarrow> String sf \<noteq> [] \<Longrightarrow>
   party_findUnique d (toUpperCase c) = Some p \<Longrightarrow> party_status p \<noteq> ''ENDED'' \<Longrightarrow>
   participant_findFirst d (String pf) (party_id p) = None \<Longrightarrow>
   toggleVote d e c pf sf = fail d 403 ''Participant is not in this party''"
  by (simp add: toggleVote_def)

lemma toggleVote_no_song:
  "String pf \<noteq> [] \<Longrightarrow> String sf \<noteq> [] \<Longrightarrow>
   party_findUnique d (toUpperCase c) = Some p \<Longrightarrow> party_status p \<noteq> ''ENDED'' \<Longrightarrow>
   participant_findFirst d (String pf) (party_id p) \<noteq> None \<Longrightarrow>
   song_findFirst d (String sf) (party_id p) = None \<Longrightarrow>
   toggleVote d e c pf sf = fail d 404 ''Song not found in this party''"
  by (auto simp: toggleVote_def)

lemma toggleVote_delete:
  "String pf \<noteq> [] \<Longrightarrow> String sf \<noteq> [] \<Longrightarrow>
   party_findUnique d (toUpperCase c) = Some p \<Longrightarrow> party_status p \<noteq> ''ENDED'' \<Longrightarrow>
   participant_findFirst d (String pf) (party_id p) \<noteq> None \<Longrightarrow>
   song_findFirst d (String sf) (party_id p) \<noteq> None \<Longrightarrow>
   vote_findFirst d (String sf) (String pf) = Some v \<Longrightarrow>
   toggleVote d e c pf sf =
     voted_outcome (vote_delete d (vote_id v)) (toUpperCase c) (String sf) False"
  by (auto simp: toggleVote_def voted_outcome_def Let_def)

lemma toggleVote_create:
  "String pf \<noteq> [] \<Longrightarrow> String sf \<noteq> [] \<Longrightarrow>
   party_findUnique d (toUpperCase c) = Some p \<Longrightarrow> party_status p \<noteq> ''ENDED'' \<Longrightarrow>
   participant_findFirst d (String pf) (party_id p) \<noteq> None \<Longrightarrow>
   song_findFirst d (String sf) (party_id p) \<noteq> None \<Longrightarrow>
   vote_findFirst d (String sf) (String pf) = None \<Longrightarrow>
   toggleVote d e c pf sf =
     (case vote_create d (cast_vote e p (String sf) (String pf)) of
        None \<Rightarrow> fail d 500 ''Failed to update vote''
      | Some d' \<Rightarrow> voted_outcome d' (toUpperCase c) (String sf) True)"
  by (auto simp: toggleVote_def voted_outcome_def cast_vote_def Let_def split: option.splits)

lemma vote_create_cases:
  "vote_create d v = None \<or> vote_create d v = Some (d\<lparr>db_votes := db_votes d @ [v]\<rparr>)"
  by (simp add: vote_create_def)

lemma toggleVote_cases:
  obtains
    (missing) "String pf = [] \<or> String sf = []"
      "toggleVote d e c pf sf = fail d 400 ''participantId and songId are required''"
  | (unknown) "String pf \<noteq> []" "String sf \<noteq> []" "party_findUnique d (toUpperCase c) = None"
      "toggleVote d e c pf sf = fail d 404 ''Party not found''"
  | (ended) p where "String pf \<noteq> []" "String sf \<noteq> []"
      "party_findUnique d (toUpperCase c) = Some p" "party_status p = ''ENDED''"
      "toggleVote d e c pf sf = fail d 409 ''Party already ended''"
  | (not_member) p where "String pf \<noteq> []" "String sf \<noteq> []"
      "party_findUnique d (toUpperCase c) = Some p" "party_status p \<noteq> ''ENDED''"
      "participant_findFirst d (String pf) (party_id p) = None"
      "toggleVote d e c pf sf = fail d 403 ''Participant is not in this party''"
  | (no_song) p where "String pf \<noteq> []" "String sf \<noteq> []"
      "party_findUnique d (toUpperCase c) = Some p" "party_status p \<noteq> ''ENDED''"
      "participant_findFirst d (String pf) (party_id p) \<noteq> None"
      "song_findFirst d (String sf) (party_id p) = None"
      "toggleVote d e c pf sf = fail d 404 ''Song not found in this party''"
  | (unvoted) p v where "String pf \<noteq> []" "String sf \<noteq> []"
      "party_findUnique d (toUpperCase c) = Some p" "party_status p \<noteq> ''ENDED''"
      "participant_findFirst d (String pf) (party_id p) \<noteq> None"
      "song_findFirst d (String sf) (party_id p) \<noteq> None"
      "vote_findFirst d (String sf) (String pf) = Some v"
      "toggleVote d e c pf sf =
         voted_outcome (vote_delete d (vote_id v)) (toUpperCase c) (String sf) False"
  | (rejected) p where "String pf \<noteq> []" "String sf \<noteq> []"
      "party_findUnique d (toUpperCase c) = Some p" "party_status p \<noteq> ''ENDED''"
      "participant_findFirst d (String pf) (party_id p) \<noteq> None"
      "song_findFirst d (String sf) (party_id p) \<noteq> None"
      "vote_findFirst d (String sf) (String pf) = None"
      "vote_create d (cast_vote e p (String sf) (String pf)) = None"
      "toggleVote d e c pf sf = fail d 500 ''Failed to update vote''"
  | (voted) p where "String pf \<noteq> []" "String sf \<noteq> []"
      "party_findUnique d (toUpperCase c) = Some p" "party_status p \<noteq> ''ENDED''"
      "participant_findFirst d (String pf) (party_id p) \<noteq> None"
      "song_findFirst d (String sf) (party_id p) \<noteq> None"
      "vote_findFirst d (String sf) (String pf) = None"
      "vote_create d (cast_vote e p (String sf) (String pf)) =
         Some (d\<lparr>db_votes := db_votes d @ [cast_vote e p (String sf) (String pf)]\<rparr>)"
      "toggleVote d e c pf sf =
         voted_outcome (d\<lparr>db_votes := db_votes d @ [cast_vote e p (String sf) (String pf)]\<rparr>)
           (toUpperCase c) (String sf) True"
proof (cases "String pf = [] \<or> String sf = []")
  case True
  then show ?thesis using missing toggleVote_400 by blast
next
  case False
  then have ne: "String pf \<noteq> []" "String sf \<noteq> []" by simp_all
  show ?thesis
  proof (cases "party_findUnique d (toUpperCase c)")
    case None
    with ne show ?thesis using unknown toggleVote_404 by blast
  next
    case party: (Some p)
    show ?thesis
    proof (cases "party_status p = ''ENDED''")
      case True
      with ne party show ?thesis using ended toggleVote_409 by blast
    next
      case active: False
      show ?thesis
      proof (cases "participant_findFirst d (String pf) (party_id p) = None")
        case True
        with ne party active show ?thesis using not_member toggleVote_403 by blast
      next
        case member: False
        show ?thesis
        proof (cases "song_findFirst d (String sf) (party_id p) = None")
          case True
          with ne party active member show ?thesis using no_song toggleVote_no_song by blast
        next
          case song: False
          show ?thesis
          proof (cases "vote_findFirst d (String sf) (String pf)")
            case (Some v)
            with ne party active member song show ?thesis
              using unvoted toggleVote_delete by blast
          next
            case None
            note eq = toggleVote_create [OF ne party active member song None, of e]
            from vote_create_cases [of d "cast_vote e p (String sf) (String pf)"]
            show ?thesis
            proof
              assume c: "vote_create d (cast_vote e p (String sf) (String pf)) = None"
              with eq have "toggleVote d e c pf sf = fail d 500 ''Failed to update vote''"
                by simp
              with ne party active member song None c show ?thesis using rejected by blast
            next
              assume c: "vote_create d (cast_vote e p (String sf) (String pf)) =
                Some (d\<lparr>db_votes := db_votes d @ [cast_vote e p (String sf) (String pf)]\<rparr>)"
              with eq have "toggleVote d e c pf sf =
                voted_outcome (d\<lparr>db_votes := db_votes d @ [cast_vote e p (String sf) (String pf)]\<rparr>)
                  (toUpperCase c) (String sf) True"
                by simp
              with ne party active member song None c show ?thesis using voted by blast
            qed
          qed
        qed
      qed
    qed
  qed
qed

section \<open>The current-song handler, branch by branch\<close>

lemma setCurrentSong_400:
  "String pf = [] \<or> String sf = [] \<Longrightarrow>
   setCurrentSong d e c pf sf = fail d 400 ''participantId and songId are required''"
  by (auto simp: setCurrentSong_def)

lemma setCurrentSong_404:
  "String pf \<noteq> [] \<Longrightarrow> String sf \<noteq> [] \<Longrightarrow> party_findUnique d (toUpperCase c) = None \<Longrightarrow>
   setCurrentSong d e c pf sf = fail d 404 ''Party not found''"
  by (simp add: setCurrentSong_def)

lemma setCurrentSong_409:
  "String pf \<noteq> [] \<Longrightarrow> String sf \<noteq> [] \<Longrightarrow>
   party_findUnique d (toUpperCase c) = Some p \<Longrightarrow> party_status p = ''ENDED'' \<Longrightarrow>
   setCurrentSong d e c pf sf = fail d 409 ''Party already ended''"
  by (simp add: setCurrentSong_def)

lemma setCurrentSong_403:
  "String pf \<noteq> [] \<Longrightarrow> String sf \<noteq> [] \<Longrightarrow>
   party_findUnique d (toUpperCase c) = Some p \<Longrightarrow> party_status p \<noteq> ''ENDED'' \<Longrightarrow>
   \<not> requireHost d (party_id p) (String pf) \<Longrightarrow>
   setCurrentSong d e c pf sf = fail d 403 ''Only host can change current song''"
  by (simp add: setCurrentSong_def)

lemma setCurrentSong_no_song:
  "String pf \<noteq> [] \<Longrightarrow> String sf \<noteq> [] \<Longrightarrow>
   party_findUnique d (toUpperCase c) = Some p \<Longrightarrow> party_status p \<noteq> ''ENDED'' \<Longrightarrow>
   requireHost d (party_id p) (String pf) \<Longrightarrow>
   song_findFirst d (String sf) (party_id p) = None \<Longrightarrow>
   setCurrentSong d e c pf sf = fail d 404 ''Song not found in this party''"
  by (simp add: setCurrentSong_def)

lemma setCurrentSong_200:
  assumes "String pf \<noteq> []" "String sf \<noteq> []"
    "party_findUnique d (toUpperCase c) = Some p" "party_status p \<noteq> ''ENDED''"
    "requireHost d (party_id p) (String pf)"
    "song_findFirst d (String sf) (party_id p) \<noteq> None"
  shows "\<exists>updated. setCurrentSong d e c pf sf =
           (current_db d (party_id p) (String sf),
            (toUpperCase c, PartyStateUpdated (Some (Some (String sf))) (party_status updated)) #
              emitPartySnapshot (current_db d (party_id p) (String sf)) (toUpperCase c),
            (200, PartyBody updated))"
proof -
  obtain p' where
    "party_update d (party_id p)
       (\<lambda>q. q\<lparr>party_currentSongId := Some (String sf), party_playbackStatus := ''PAUSED'',
               party_playbackStartedAt := None, party_playbackOffsetSec := 0\<rparr>) =
     Some (current_db d (party_id p) (String sf),
           p'\<lparr>party_currentSongId := Some (String sf), party_playbackStatus := ''PAUSED'',
               party_playbackStartedAt := None, party_playbackOffsetSec := 0\<rparr>)"
    using party_update_found [OF assms(3)] unfolding current_db_def by blast
  with assms show ?thesis
    by (auto simp: setCurrentSong_def Let_def)
qed

lemma setCurrentSong_cases:
  obtains
    (missing) "String pf = [] \<or> String sf = []"
      "setCurrentSong d e c pf sf = fail d 400 ''participantId and songId are required''"
  | (unknown) "String pf \<noteq> []" "String sf \<noteq> []" "party_findUnique d (toUpperCase c) = None"
      "setCurrentSong d e c pf sf = fail d 404 ''Party not found''"
  | (ended) p where "String pf \<noteq> []" "String sf \<noteq> []"
      "party_findUnique d (toUpperCase c) = Some p" "party_status p = ''ENDED''"
      "setCurrentSong d e c pf sf = fail d 409 ''Party already ended''"
  | (not_host) p where "String pf \<noteq> []" "String sf \<noteq> []"
      "party_findUnique d (toUpperCase c) = Some p" "party_status p \<noteq> ''ENDED''"
      "\<not> requireHost d (party_id p) (String pf)"
      "setCurrentSong d e c pf sf = fail d 403 ''Only host can change current song''"
  | (no_song) p where "String pf \<noteq> []" "String sf \<noteq> []"
      "party_findUnique d (toUpperCase c) = Some p" "party_status p \<noteq> ''ENDED''"
      "requireHost d (party_id p) (String pf)"
      "song_findFirst d (String sf) (party_id p) = None"
      "setCurrentSong d e c pf sf = fail d 404 ''Song not found in this party''"
  | (ok) p updated where "String pf \<noteq> []" "String sf \<noteq> []"
      "party_findUnique d (toUpperCase c) = Some p" "party_status p \<noteq> ''ENDED''"
      "requireHost d (party_id p) (String pf)"
      "song_findFirst d (String sf) (party_id p) \<noteq> None"
      "setCurrentSong d e c pf sf =
           (current_db d (party_id p) (String sf),
            (toUpperCase c, PartyStateUpdated (Some (Some (String sf))) (party_status updated)) #
              emitPartySnapshot (current_db d (party_id p) (String sf)) (toUpperCase c),
            (200, PartyBody updated))"
proof (cases "String pf = [] \<or> String sf = []")
  case True
  then show ?thesis using missing setCurrentSong_400 by blast
next
  case False
  then have ne: "String pf \<noteq> []" "String sf \<noteq> []" by simp_all
  show ?thesis
  proof (cases "party_findUnique d (toUpperCase c)")
    case None
    with ne show ?thesis using unknown setCurrentSong_404 by blast
  next
    case party: (Some p)
    show ?thesis
    proof (cases "party_status p = ''ENDED''")
      case True
      with ne party show ?thesis using ended setCurrentSong_409 by blast
    next
      case active: False
      show ?thesis
      proof (cases "requireHost d (party_id p) (String pf)")
        case False
        with ne party active show ?thesis using not_host setCurrentSong_403 by blast
      next
        case host: True
        show ?thesis
        proof (cases "song_findFirst d (String sf) (party_id p) = None")
          case True
          with ne party active host show ?thesis
            using no_song setCurrentSong_no_song by blast
        next
          case False
          from setCurrentSong_200 [OF ne party active host False, of e]
          obtain updated where "setCurrentSong d e c pf sf =
           (current_db d (party_id p) (String sf),
            (toUpperCase c, PartyStateUpdated (Some (Some (String sf))) (party_status updated)) #
              emitPartySnapshot (current_db d (party_id p) (String sf)) (toUpperCase c),
            (200, PartyBody updated))" by blast
          with ne party active host False show ?thesis using ok by blast
        qed
      qed
    qed
  qed
qed

section \<open>The create, join and read handlers\<close>

lemma find_append_cases:
  "find P (xs @ ys) = (case find P xs of None \<Rightarrow> find P ys | Some x \<Rightarrow> Some x)"
  by (induction xs) auto

lemma party_create_cases:
  "party_create d p = None \<or>
   party_create d p = Some (d\<lparr>db_parties := db_parties d @ [p]\<rparr>) \<and>
   (\<forall>q\<in>set (db_parties d). party_id q \<noteq> party_id p \<and> party_code q \<noteq> party_code p)"
  by (auto simp: party_create_def list_ex_iff)

lemma participant_create_cases:
  "participant_create d m = None \<or>
   participant_create d m = Some (d\<lparr>db_participants := db_participants d @ [m]\<rparr>)"
  by (simp add: participant_create_def)

lemma createParty_tx_cases:
  "createParty_tx d e code name hostName ms dm = None \<or>
   createParty_tx d e code name hostName ms dm =
     Some (created_db d (created_party e code name ms dm) (created_host e hostName),
           created_party e code name ms dm, created_host e hostName) \<and>
   (\<forall>q\<in>set (db_parties d). party_id q \<noteq> env_id1 e \<and> party_code q \<noteq> code)"
proof -
  let ?p = "created_party e code name ms dm"
  let ?m = "created_host e hostName"
  let ?f = "\<lambda>q. q\<lparr>party_hostParticipantId := Some (participant_id ?m)\<rparr>"
  have tx: "createParty_tx d e code name hostName ms dm =
    (case party_create d ?p of
       None \<Rightarrow> None
     | Some d1 \<Rightarrow>
         (case participant_create d1 ?m of
            None \<Rightarrow> None
          | Some d2 \<Rightarrow>
              (case party_update d2 (party_id ?p) ?f of
                 None \<Rightarrow> None
               | Some (d3, u) \<Rightarrow> Some (d3, ?p, ?m))))"
    by (simp add: createParty_tx_def created_party_def created_host_def Let_def
          cong: option.case_cong)
  show ?thesis
  proof (cases "party_create d ?p")
    case None
    then show ?thesis by (simp add: tx)
  next
    case (Some d1)
    with party_create_cases [of d ?p]
    have d1: "d1 = d\<lparr>db_parties := db_parties d @ [?p]\<rparr>"
      and fresh: "\<forall>q\<in>set (db_parties d). party_id q \<noteq> env_id1 e \<and> party_code q \<noteq> code"
      by (auto simp: created_party_def)
    show ?thesis
    proof (cases "participant_create d1 ?m")
      case None
      with Some show ?thesis by (simp add: tx)
    next
      case m: (Some d2)
      with participant_create_cases [of d1 ?m]
      have d2: "d2 = d\<lparr>db_parties := db_parties d @ [?p],
                        db_participants := db_participants d @ [?m]\<rparr>"
        by (simp add: d1)
      have "find (\<lambda>q. party_id q = env_id1 e) (db_parties d) = None"
        using fresh by (simp add: find_None_iff)
      then have found: "find (\<lambda>q. party_id q = env_id1 e) (db_parties d @ [?p]) = Some ?p"
        by (simp add: find_append_cases created_party_def)
      have unchanged: "map (\<lambda>q. if party_id q = env_id1 e then ?f q else q) (db_parties d) =
                       db_parties d"
        using fresh by (simp add: map_idI)
      have "party_update d2 (party_id ?p) ?f = Some (created_db d ?p ?m, ?f ?p)"
        using found unchanged
        by (simp add: party_update_def party_map_def d2 created_db_def created_party_def)
      with Some m fresh show ?thesis by (simp add: tx)
    qed
  qed
qed

lemma createParty_cases:
  obtains
    (failed) code msg where "createParty d e nf hf ms dm = fail d code msg" "code \<noteq> 201"
  | (ok) code where
      "\<forall>q\<in>set (db_parties d). party_id q \<noteq> env_id1 e \<and> party_code q \<noteq> code"
      "createParty d e nf hf ms dm =
         (created_db d (created_party e code (trim (String nf)) ms dm)
            (created_host e (trim (String hf))), [],
          (201, PartyCreatedBody (created_party e code (trim (String nf)) ms dm)
                  (created_host e (trim (String hf)))))"
proof (cases "trim (String nf) = [] \<or> trim (String hf) = []")
  case True
  then have "createParty d e nf hf ms dm = fail d 400 ''name and hostName are required''"
    by (auto simp: createParty_def)
  then show ?thesis using failed by simp
next
  case ne: False
  show ?thesis
  proof (cases "generatePartyCode d (env_codes e)")
    case None
    with ne have "createParty d e nf hf ms dm = fail d 500 ''Failed to create party''"
      by (simp add: createParty_def)
    then show ?thesis using failed by simp
  next
    case (Some code)
    from createParty_tx_cases [of d e code "trim (String nf)" "trim (String hf)" ms dm]
    show ?thesis
    proof
      assume "createParty_tx d e code (trim (String nf)) (trim (String hf)) ms dm = None"
      with ne Some have "createParty d e nf hf ms dm = fail d 500 ''Failed to create party''"
        by (simp add: createParty_def)
      then show ?thesis using failed by simp
    next
      assume tx: "createParty_tx d e code (trim (String nf)) (trim (String hf)) ms dm =
        Some (created_db d (created_party e code (trim (String nf)) ms dm)
                (created_host e (trim (String hf))),
              created_party e code (trim (String nf)) ms dm,
              created_host e (trim (String hf))) \<and>
        (\<forall>q\<in>set (db_parties d). party_id q \<noteq> env_id1 e \<and> party_code q \<noteq> code)"
      with ne Some have "createParty d e nf hf ms dm =
         (created_db d (created_party e code (trim (String nf)) ms dm)
            (created_host e (trim (String hf))), [],
          (201, PartyCreatedBody (created_party e code (trim (String nf)) ms dm)
                  (created_host e (trim (String hf)))))"
        by (simp add: createParty_def Let_def)
      with tx show ?thesis using ok by blast
    qed
  qed
qed

lemma joinParty_cases:
  obtains
    (failed) code msg where "joinParty d e c nf = fail d code msg"
      "code = 400 \<or> code = 404 \<or> code = 409"
  | (ok) p d' where "party_findUnique d (toUpperCase c) = Some p"
      "d' = d\<lparr>db_participants := db_participants d @ [joined_participant e p (trim (String nf))]\<rparr>"
      "joinParty d e c nf =
         (d', emitPartySnapshot d' (toUpperCase c),
          (200, JoinedBody (party_id p) (party_code p) (party_name p) (party_status p)
                  (joined_participant e p (trim (String nf)))))"
proof (cases "trim (String nf) = []")
  case True
  then have "joinParty d e c nf = fail d 400 ''name is required''"
    by (simp add: joinParty_def)
  then show ?thesis using failed by simp
next
  case ne: False
  show ?thesis
  proof (cases "party_findUnique d (toUpperCase c)")
    case None
    with ne have "joinParty d e c nf = fail d 404 ''Party not found''"
      by (simp add: joinParty_def)
    then show ?thesis using failed by simp
  next
    case (Some p)
    show ?thesis
    proof (cases "party_status p = ''ENDED''")
      case True
      with ne Some have "joinParty d e c nf = fail d 409 ''Party already ended''"
        by (simp add: joinParty_def)
      then show ?thesis using failed by simp
    next
      case active: False
      let ?m = "joined_participant e p (trim (String nf))"
      have eq: "joinParty d e c nf =
        (case participant_create d ?m of
           None \<Rightarrow> fail d 409 ''That display name is already in use in this party''
         | Some d' \<Rightarrow>
             (d', emitPartySnapshot d' (toUpperCase c),
              (200, JoinedBody (party_id p) (party_code p) (party_name p) (party_status p) ?m)))"
        using ne Some active
        by (simp add: joinParty_def joined_participant_def Let_def cong: option.case_cong)
      from participant_create_cases [of d ?m] show ?thesis
      proof
        assume "participant_create d ?m = None"
        with eq show ?thesis using failed by simp
      next
        assume "participant_create d ?m = Some (d\<lparr>db_participants := db_participants d @ [?m]\<rparr>)"
        with eq Some show ?thesis using ok by simp
      qed
    qed
  qed
qed

lemma getParty_db: "fst (getParty d c) = d"
  by (simp add: getParty_def fail_def split: option.splits)

section \<open>What each handler leaves alone\<close>

lemma party_map_tables:
  "db_parties (party_map d pid f) = map (\<lambda>q. if party_id q = pid then f q else q) (db_parties d)"
  "db_participants (party_map d pid f) = db_participants d"
  "db_songs (party_map d pid f) = db_songs d"
  "db_votes (party_map d pid f) = db_votes d"
  by (simp_all add: party_map_def)

lemma party_step_ok_id: "party_step_ok (\<lambda>q. q)"
  by (simp add: party_step_ok_def)

lemma party_step_ok_at:
  "party_step_ok f \<Longrightarrow> party_step_ok (\<lambda>q. if party_id q = pid then f q else q)"
  by (simp add: party_step_ok_def)

lemma party_step_ok_ended:
  "party_step_ok (\<lambda>q. q\<lparr>party_status := ''ENDED'', party_endedAt := Some now\<rparr>)"
  by (simp add: party_step_ok_def playback_ok_def)

lemma party_step_ok_current:
  "party_step_ok (\<lambda>q. q\<lparr>party_currentSongId := Some songId, party_playbackStatus := ''PAUSED'',
                          party_playbackStartedAt := None, party_playbackOffsetSec := 0\<rparr>)"
  by (simp add: party_step_ok_def playback_ok_def)

lemma party_step_ok_playback:
  "(sa \<noteq> None) = (st = ''PLAYING'') \<Longrightarrow>
   party_step_ok (\<lambda>q. q\<lparr>party_playbackStatus := st, party_playbackStartedAt := sa,
                          party_playbackOffsetSec := so\<rparr>)"
  by (simp add: party_step_ok_def playback_ok_def)

lemma party_map_step:
  "party_step_ok f \<Longrightarrow>
   \<exists>g. party_step_ok g \<and> db_parties (party_map d pid f) = map g (db_parties d)"
  using party_step_ok_at [of f pid] party_map_tables(1) [of d pid f] by blast

lemma endParty_tables:
  "\<exists>g. party_step_ok g \<and>
       db_parties (fst (endParty d e c pf)) = map g (db_parties d)"
  "db_songs (fst (endParty d e c pf)) = db_songs d"
  "db_votes (fst (endParty d e c pf)) = db_votes d"
proof -
  show "\<exists>g. party_step_ok g \<and> db_parties (fst (endParty d e c pf)) = map g (db_parties d)"
  proof (cases rule: endParty_cases [where d = d and e = e and c = c and pf = pf])
    case (ok p)
    then show ?thesis
      using party_map_step [OF party_step_ok_ended]
      by (simp add: ended_db_def)
  qed (use party_step_ok_id in \<open>auto simp: fail_def\<close>)
  show "db_songs (fst (endParty d e c pf)) = db_songs d"
    by (cases rule: endParty_cases [where d = d and e = e and c = c and pf = pf])
       (simp_all add: fail_def ended_db_def party_map_tables)
  show "db_votes (fst (endParty d e c pf)) = db_votes d"
    by (cases rule: endParty_cases [where d = d and e = e and c = c and pf = pf])
       (simp_all add: fail_def ended_db_def party_map_tables)
qed

lemma setPlayback_tables:
  "\<exists>g. party_step_ok g \<and>
       db_parties (fst (setPlayback d e c pf af off)) = map g (db_parties d)"
  "db_songs (fst (setPlayback d e c pf af off)) = db_songs d"
  "db_votes (fst (setPlayback d e c pf af off)) = db_votes d"
proof -
  show "\<exists>g. party_step_ok g \<and>
          db_parties (fst (setPlayback d e c pf af off)) = map g (db_parties d)"
  proof (cases rule: setPlayback_cases [where d = d and e = e and c = c and pf = pf
                                          and af = af and off = off])
    case (ok p st sa so)
    then have "(sa \<noteq> None) = (st = ''PLAYING'')" by auto
    from party_map_step [OF party_step_ok_playback [OF this]] ok(7)
    show ?thesis
      by (simp add: playback_db_def)
  qed (use party_step_ok_id in \<open>auto simp: fail_def\<close>)
  show "db_songs (fst (setPlayback d e c pf af off)) = db_songs d"
    by (cases rule: setPlayback_cases [where d = d and e = e and c = c and pf = pf
                                         and af = af and off = off])
       (simp_all add: fail_def playback_db_def party_map_tables)
  show "db_votes (fst (setPlayback d e c pf af off)) = db_votes d"
    by (cases rule: setPlayback_cases [where d = d and e = e and c = c and pf = pf
                                         and af = af and off = off])
       (simp_all add: fail_def playback_db_def party_map_tables)
qed

lemma setCurrentSong_tables:
  "\<exists>g. party_step_ok g \<and>
       db_parties (fst (setCurrentSong d e c pf sf)) = map g (db_parties d)"
  "db_songs (fst (setCurrentSong d e c pf sf)) = db_songs d"
  "db_votes (fst (setCurrentSong d e c pf sf)) = db_votes d"
proof -
  show "\<exists>g. party_step_ok g \<and>
          db_parties (fst (setCurrentSong d e c pf sf)) = map g (db_parties d)"
  proof (cases rule: setCurrentSong_cases [where d = d and e = e and c = c and pf = pf
                                             and sf = sf])
    case (ok p updated)
    then show ?thesis
      using party_map_step [OF party_step_ok_current]
      by (simp add: current_db_def)
  qed (use party_step_ok_id in \<open>auto simp: fail_def\<close>)
  show "db_songs (fst (setCurrentSong d e c pf sf)) = db_songs d"
    by (cases rule: setCurrentSong_cases [where d = d and e = e and c = c and pf = pf
                                            and sf = sf])
       (simp_all add: fail_def current_db_def party_map_tables)
  show "db_votes (fst (setCurrentSong d e c pf sf)) = db_votes d"
    by (cases rule: setCurrentSong_cases [where d = d and e = e and c = c and pf = pf
                                            and sf = sf])
       (simp_all add: fail_def current_db_def party_map_tables)
qed

lemma toggleVote_tables:
  "db_parties (fst (toggleVote d e c pf sf)) = db_parties d"
  "db_songs (fst (toggleVote d e c pf sf)) = db_songs d"
  by (cases rule: toggleVote_cases [where d = d and e = e and c = c and pf = pf and sf = sf];
      simp add: fail_def voted_outcome_def vote_delete_def)+

lemma addSong_tables:
  "db_parties (fst (addSong d e c pf tf af awf pvf exf)) = db_parties d"
  "db_votes (fst (addSong d e c pf tf af awf pvf exf)) = db_votes d"
  by (cases rule: addSong_cases [where d = d and e = e and c = c and pf = pf and tf = tf
                                   and af = af and awf = awf and pvf = pvf and exf = exf];
      simp add: fail_def)+

lemma joinParty_tables:
  "db_parties (fst (joinParty d e c nf)) = db_parties d"
  "db_songs (fst (joinParty d e c nf)) = db_songs d"
  "db_votes (fst (joinParty d e c nf)) = db_votes d"
  by (cases rule: joinParty_cases [where d = d and e = e and c = c and nf = nf];
      simp add: fail_def)+

lemma createParty_tables:
  "\<exists>new. db_parties (fst (createParty d e nf hf ms dm)) = db_parties d @ new \<and>
         (\<forall>q\<in>set new. playback_ok q)"
  "db_songs (fst (createParty d e nf hf ms dm)) = db_songs d"
  "db_votes (fst (createParty d e nf hf ms dm)) = db_votes d"
proof -
  show "\<exists>new. db_parties (fst (createParty d e nf hf ms dm)) = db_parties d @ new \<and>
          (\<forall>q\<in>set new. playback_ok q)"
  proof (cases rule: createParty_cases [where d = d and e = e and nf = nf and hf = hf
                                          and ms = ms and dm = dm])
    case (failed code msg)
    then show ?thesis by (simp add: fail_def)
  next
    case (ok code)
    then show ?thesis
      by (simp add: created_db_def created_party_def playback_ok_def)
  qed
  show "db_songs (fst (createParty d e nf hf ms dm)) = db_songs d"
    by (cases rule: createParty_cases [where d = d and e = e and nf = nf and hf = hf
                                         and ms = ms and dm = dm])
       (simp_all add: fail_def created_db_def)
  show "db_votes (fst (createParty d e nf hf ms dm)) = db_votes d"
    by (cases rule: createParty_cases [where d = d and e = e and nf = nf and hf = hf
                                         and ms = ms and dm = dm])
       (simp_all add: fail_def created_db_def)
qed

lemma handle_parties:
  "\<exists>g new. party_step_ok g \<and> db_parties (fst (handle d c)) = map g (db_parties d) @ new \<and>
           (\<forall>q\<in>set new. playback_ok q)"
proof -
  obtain e r where c: "c = (e, r)" by (cases c)
  have same: "db_parties d' = db_parties d \<Longrightarrow>
    \<exists>g new. party_step_ok g \<and> db_parties d' = map g (db_parties d) @ new \<and>
            (\<forall>q\<in>set new. playback_ok q)" for d'
    using party_step_ok_id by (intro exI [of _ "\<lambda>q. q"] exI [of _ "[]"]) simp
  have mapped: "\<exists>g. party_step_ok g \<and> db_parties d' = map g (db_parties d) \<Longrightarrow>
    \<exists>g new. party_step_ok g \<and> db_parties d' = map g (db_parties d) @ new \<and>
            (\<forall>q\<in>set new. playback_ok q)" for d'
    by (metis append_Nil2 empty_iff list.set(1))
  have appended: "\<exists>new. db_parties d' = db_parties d @ new \<and> (\<forall>q\<in>set new. playback_ok q) \<Longrightarrow>
    \<exists>g new. party_step_ok g \<and> db_parties d' = map g (db_parties d) @ new \<and>
            (\<forall>q\<in>set new. playback_ok q)" for d'
    using party_step_ok_id by (metis list.map_ident)
  show ?thesis
  proof (cases r)
    case (CreateParty n h ms dm)
    then show ?thesis using appended [OF createParty_tables(1)] c by simp
  next
    case (JoinParty cp n)
    then show ?thesis using same [OF joinParty_tables(1)] c by simp
  next
    case (GetParty cp)
    then show ?thesis using same [of "fst (getParty d cp)"] c by (simp add: getParty_db)
  next
    case (AddSong cp pid t a aw pv ex)
    then show ?thesis using same [OF addSong_tables(1)] c by simp
  next
    case (ToggleVote cp pid sid)
    then show ?thesis using same [OF toggleVote_tables(1)] c by simp
  next
    case (SetCurrentSong cp pid sid)
    then show ?thesis using mapped [OF setCurrentSong_tables(1)] c by simp
  next
    case (SetPlayback cp pid act off)
    then show ?thesis using mapped [OF setPlayback_tables(1)] c by simp
  next
    case (EndParty cp pid)
    then show ?thesis using mapped [OF endParty_tables(1)] c by simp
  qed
qed

section \<open>Invariants of runs\<close>

lemma handle_playback_ok:
  assumes "\<forall>q\<in>set (db_parties d). playback_ok q"
  shows "\<forall>q\<in>set (db_parties (fst (handle d c))). playback_ok q"
proof -
  obtain g new where "party_step_ok g"
    "db_parties (fst (handle d c)) = map g (db_parties d) @ new" "\<forall>q\<in>set new. playback_ok q"
    using handle_parties by blast
  with assms show ?thesis
    by (auto simp: party_step_ok_def)
qed

lemma run_playback_ok:
  "\<forall>q\<in>set (db_parties d). playback_ok q \<Longrightarrow> \<forall>q\<in>set (db_parties (run d cs)). playback_ok q"
proof (induction cs arbitrary: d)
  case Nil
  then show ?case by simp
next
  case (Cons c cs)
  from Cons.IH [OF handle_playback_ok [OF Cons.prems]] show ?case by simp
qed

lemma party_findUnique_step:
  assumes "party_step_ok g" "db_parties d' = map g (db_parties d) @ new"
    "party_findUnique d code = Some p"
  shows "party_findUnique d' code = Some (g p)"
proof -
  have "\<And>x. (party_code (g x) = code) = (party_code x = code)"
    using assms(1) by (simp add: party_step_ok_def)
  then have "find (\<lambda>q. party_code q = code) (map g (db_parties d)) =
             map_option g (find (\<lambda>q. party_code q = code) (db_parties d))"
    by (rule find_map_preserved)
  with assms(2,3) show ?thesis
    by (simp add: party_findUnique_def find_append_cases)
qed

lemma handle_ended:
  assumes "party_findUnique d code = Some p" "party_status p = ''ENDED''"
  shows "\<exists>p'. party_findUnique (fst (handle d c)) code = Some p' \<and> party_status p' = ''ENDED''"
proof -
  obtain g new where g: "party_step_ok g"
    "db_parties (fst (handle d c)) = map g (db_parties d) @ new"
    using handle_parties by blast
  from party_findUnique_step [OF g assms(1)] g(1) assms(2) show ?thesis
    by (simp add: party_step_ok_def)
qed

lemma run_ended:
  "party_findUnique d code = Some p \<Longrightarrow> party_status p = ''ENDED'' \<Longrightarrow>
   \<exists>p'. party_findUnique (run d cs) code = Some p' \<and> party_status p' = ''ENDED''"
proof (induction cs arbitrary: d p)
  case Nil
  then show ?case by simp
next
  case (Cons c cs)
  from handle_ended [OF Cons.prems] obtain p' where
    "party_findUnique (fst (handle d c)) code = Some p'" "party_status p' = ''ENDED''"
    by blast
  from Cons.IH [OF this] show ?case by simp
qed

lemma ended_rejects:
  assumes "party_findUnique d code = Some p" "party_status p = ''ENDED''" "mutating_on code r"
  shows "handle d (e, r) =
           fail d (if has_required_fields r then 409 else 400)
             (if has_required_fields r then ''Party already ended'' else required_message r)"
proof (cases r)
  case (AddSong c pid t a aw pv ex)
  with assms show ?thesis
    using addSong_400 [of pid t a d e c aw pv ex] addSong_409 [of pid t a d c p e aw pv ex]
    by auto
next
  case (ToggleVote c pid sid)
  with assms show ?thesis
    using toggleVote_400 [of pid sid d e c] toggleVote_409 [of pid sid d c p e]
    by auto
next
  case (SetCurrentSong c pid sid)
  with assms show ?thesis
    using setCurrentSong_400 [of pid sid d e c] setCurrentSong_409 [of pid sid d c p e]
    by auto
next
  case (SetPlayback c pid act off)
  with assms show ?thesis
    using setPlayback_400 [of pid act d e c off] setPlayback_409 [of pid act d c p e off]
    by auto
next
  case (EndParty c pid)
  with assms show ?thesis
    using endParty_400 [of pid d e c] endParty_409 [of pid d c p e]
    by auto
qed (use assms in simp_all)

lemma endParty_marks_ended:
  assumes "endParty d e c pf = (d', evs, (200, b))"
  shows "\<exists>p'. party_findUnique d' (toUpperCase c) = Some p' \<and> party_status p' = ''ENDED''"
proof (cases rule: endParty_cases [where d = d and e = e and c = c and pf = pf])
  case (ok p)
  with assms have "d' = ended_db d (party_id p) (env_now e)" by simp
  with ok(2) show ?thesis
    by (simp add: ended_db_def party_findUnique_party_map)
qed (use assms in \<open>simp_all add: fail_def\<close>)

text \<open>
  C6. In every database reached from the empty one by any sequence of calls (creating
  parties, playing, pausing, changing the current song, ending, and all others), every
  party has a start time exactly when its playback status is PLAYING.
\<close>

theorem playback_startedAt_iff_playing:
  "\<forall>p\<in>set (db_parties (run empty_db calls)).
     (party_playbackStartedAt p \<noteq> None) = (party_playbackStatus p = ''PLAYING'')"
proof -
  have "\<forall>q\<in>set (db_parties empty_db). playback_ok q"
    by (simp add: empty_db_def)
  from run_playback_ok [OF this, of calls] show ?thesis
    by (simp add: playback_ok_def)
qed

theorem playback_startedAt_iff_playing_witness:
  "db_parties (run empty_db demo_play_calls) = [demo_playing_party] \<and>
   (party_playbackStartedAt demo_playing_party \<noteq> None) =
     (party_playbackStatus demo_playing_party = ''PLAYING'')"
proof -
  have r: "db_parties (run empty_db demo_play_calls) = [demo_playing_party]"
    by code_simp
  with playback_startedAt_iff_playing [of demo_play_calls] show ?thesis
    by simp
qed

text \<open>
  C3, as the code has it. Once the end handler has succeeded for a party, then after any
  further calls, each mutating call addressed to that party (add, vote, current song,
  playback, end) leaves the database unchanged and sends no event; it is answered
  409 "Party already ended" when it carries its required fields, and 400 by the
  required-fields check, which runs first, when it does not.
\<close>

theorem ended_party_rejects_mutations:
  assumes "endParty d e code_param participantId_field = (d', evs, (200, b))"
    and "mutating_on (toUpperCase code_param) r"
  shows "handle (run d' calls) (e', r) =
           (run d' calls, [],
            if has_required_fields r then (409, ErrorBody ''Party already ended'')
            else (400, ErrorBody (required_message r)))"
proof -
  from endParty_marks_ended [OF assms(1)] obtain p where
    "party_findUnique d' (toUpperCase code_param) = Some p" "party_status p = ''ENDED''"
    by blast
  from run_ended [OF this, of calls] obtain p' where
    "party_findUnique (run d' calls) (toUpperCase code_param) = Some p'"
    "party_status p' = ''ENDED''"
    by blast
  from ended_rejects [OF this assms(2), of e'] show ?thesis
    by (simp add: fail_def)
qed

theorem ended_party_rejects_mutations_witness:
  "endParty demo_db (demo_env\<lparr>env_now := 3000\<rparr>) ''abc234'' (Some ''h1'') =
     (demo_ended_db,
      [(''ABC234'', PartyEnded (Some (demo_standings ! 0)) demo_standings),
       (''ABC234'', PartyStateUpdated None ''ENDED'')] @
        emitPartySnapshot demo_ended_db ''ABC234'',
      (200, EndBody (Some (demo_standings ! 0)) demo_standings)) \<and>
   mutating_on (toUpperCase ''abc234'') (ToggleVote ''ABC234'' (Some ''h1'') (Some ''s1'')) \<and>
   handle (run demo_ended_db [(demo_env, GetParty ''abc234'')])
     (demo_env, ToggleVote ''ABC234'' (Some ''h1'') (Some ''s1'')) =
     (run demo_ended_db [(demo_env, GetParty ''abc234'')], [],
      (409, ErrorBody ''Party already ended''))"
proof -
  have m: "mutating_on (toUpperCase ''abc234'') (ToggleVote ''ABC234'' (Some ''h1'') (Some ''s1''))"
    by code_simp
  have f: "has_required_fields (ToggleVote ''ABC234'' (Some ''h1'') (Some ''s1''))"
    by simp
  from ended_party_rejects_mutations [OF demo_endParty m,
         of "[(demo_env, GetParty ''abc234'')]" demo_env] f m demo_endParty
  show ?thesis by simp
qed

text \<open>
  C3 as stated fails for a call that lacks a required field: on the ended demo party, an
  add without a title is answered 400 by the required-fields check, not 409.
\<close>

theorem ended_party_validation_counterexample:
  "fst (endParty demo_db (demo_env\<lparr>env_now := 3000\<rparr>) ''abc234'' (Some ''h1'')) = demo_ended_db \<and>
   snd (snd (endParty demo_db (demo_env\<lparr>env_now := 3000\<rparr>) ''abc234'' (Some ''h1''))) =
     (200, EndBody (Some (demo_standings ! 0)) demo_standings) \<and>
   handle demo_ended_db
     (demo_env, AddSong ''abc234'' (Some ''h1'') None (Some ''x'') None None None) =
     (demo_ended_db, [], (400, ErrorBody ''participantId, title and artist are required''))"
proof -
  have "handle demo_ended_db
     (demo_env, AddSong ''abc234'' (Some ''h1'') None (Some ''x'') None None None) =
     (demo_ended_db, [], (400, ErrorBody ''participantId, title and artist are required''))"
    by (simp add: addSong_400 fail_def trim_def)
  then show ?thesis
    by (simp add: demo_endParty)
qed

section \<open>Queue positions along a run\<close>

lemma queue_positions_same:
  "db_songs d' = db_songs d \<Longrightarrow> queue_positions d' pid = queue_positions d pid"
  by (simp add: queue_positions_def party_songs_def)

lemma addSong_queue:
  "queue_positions (fst (addSong d e c pf tf af awf pvf exf)) pid =
     queue_positions d pid @
     (if added_to pid d (e, AddSong c pf tf af awf pvf exf)
      then [int (length (queue_positions d pid)) + 1] else [])"
proof (cases rule: addSong_cases [where d = d and e = e and c = c and pf = pf and tf = tf
                                    and af = af and awf = awf and pvf = pvf and exf = exf])
  case (ok p d')
  then show ?thesis
    by (simp add: queue_positions_def party_songs_def added_song_def)
qed (simp_all add: fail_def)

lemma handle_queue:
  "queue_positions (fst (handle d c)) pid =
     queue_positions d pid @
     (if added_to pid d c then [int (length (queue_positions d pid)) + 1] else [])"
proof -
  obtain e r where c: "c = (e, r)" by (cases c)
  show ?thesis
  proof (cases r)
    case (CreateParty n h ms dm)
    then show ?thesis using c by (simp add: queue_positions_same [OF createParty_tables(2)])
  next
    case (JoinParty cp n)
    then show ?thesis using c by (simp add: queue_positions_same [OF joinParty_tables(2)])
  next
    case (GetParty cp)
    then show ?thesis using c by (simp add: getParty_db)
  next
    case (AddSong cp pid t a aw pv ex)
    then show ?thesis using c addSong_queue [of d e cp pid t a aw pv ex] by simp
  next
    case (ToggleVote cp pid sid)
    then show ?thesis using c by (simp add: queue_positions_same [OF toggleVote_tables(2)])
  next
    case (SetCurrentSong cp pid sid)
    then show ?thesis using c by (simp add: queue_positions_same [OF setCurrentSong_tables(2)])
  next
    case (SetPlayback cp pid act off)
    then show ?thesis using c by (simp add: queue_positions_same [OF setPlayback_tables(2)])
  next
    case (EndParty cp pid)
    then show ?thesis using c by (simp add: queue_positions_same [OF endParty_tables(2)])
  qed
qed

lemma run_queue:
  "queue_positions d pid = map int [1..<Suc n] \<Longrightarrow>
   queue_positions (run d cs) pid = map int [1..<Suc (n + successful_adds pid d cs)]"
proof (induction cs arbitrary: d n)
  case Nil
  then show ?case by simp
next
  case (Cons c cs)
  have len: "length (queue_positions d pid) = n"
    using Cons.prems by simp
  show ?case
  proof (cases "added_to pid d c")
    case True
    then have "queue_positions (fst (handle d c)) pid = map int [1..<Suc (Suc n)]"
      using handle_queue [of d c pid] Cons.prems len by simp
    from Cons.IH [OF this] True show ?thesis by simp
  next
    case False
    then have "queue_positions (fst (handle d c)) pid = map int [1..<Suc n]"
      using handle_queue [of d c pid] Cons.prems by simp
    from Cons.IH [OF this] False show ?thesis by simp
  qed
qed

lemma addSong_at_capacity:
  assumes "party_findUnique d (toUpperCase c) = Some p" "queue_full d p"
  shows "addSong d e c pf tf af awf pvf exf =
           (d, [],
            if String pf = [] \<or> trim (String tf) = [] \<or> trim (String af) = []
            then (400, ErrorBody ''participantId, title and artist are required'')
            else if party_status p = ''ENDED'' then (409, ErrorBody ''Party already ended'')
            else if participant_findFirst d (String pf) (party_id p) = None
            then (403, ErrorBody ''Participant is not in this party'')
            else (409, ErrorBody ''Party has reached max songs''))"
proof (cases "String pf = [] \<or> trim (String tf) = [] \<or> trim (String af) = []")
  case True
  from addSong_400 [OF this] True show ?thesis
    by (simp add: fail_def)
next
  case False
  then have ne: "String pf \<noteq> []" "trim (String tf) \<noteq> []" "trim (String af) \<noteq> []"
    by simp_all
  show ?thesis
  proof (cases "party_status p = ''ENDED''")
    case True
    from addSong_409 [OF ne assms(1) True] False True show ?thesis
      by (simp add: fail_def)
  next
    case active: False
    show ?thesis
    proof (cases "participant_findFirst d (String pf) (party_id p) = None")
      case True
      from addSong_403 [OF ne assms(1) active True] False active True show ?thesis
        by (simp add: fail_def)
    next
      case member: False
      from addSong_full [OF ne assms(1) active member assms(2)] False active member
      show ?thesis
        by (simp add: fail_def)
    qed
  qed
qed

lemma demo_queue:
  "queue_positions (run empty_db demo_calls) ''p1'' = [1, 2] \<and>
   successful_adds ''p1'' empty_db demo_calls = 2"
  by code_simp

text \<open>
  C2, as the code has it. After any sequence of calls from the empty database, the queue
  positions of a party's songs, in the order they were added, are 1, 2, ..., N, where N is
  the number of successful adds to that party. And when a party has a capacity and holds
  at least that many songs, an add to it changes nothing, sends no event and is answered
  with the error of the first check that fails: 400 when a required field is missing,
  else 409 "Party already ended" when the party has ended, else 403 when the caller is
  not a participant of the party, and otherwise 409 "Party has reached max songs".
\<close>

theorem queue_positions_contiguous_and_capped:
  "queue_positions (run empty_db calls) partyId =
     map int [1..<Suc (successful_adds partyId empty_db calls)] \<and>
   (party_findUnique d (toUpperCase code_param) = Some p \<and> party_maxSongs p = Some capacity \<and>
    int (length (party_songs d (party_id p))) \<ge> capacity \<longrightarrow>
      addSong d e code_param pf tf af awf pvf exf =
        (d, [],
         if String pf = [] \<or> trim (String tf) = [] \<or> trim (String af) = []
         then (400, ErrorBody ''participantId, title and artist are required'')
         else if party_status p = ''ENDED'' then (409, ErrorBody ''Party already ended'')
         else if participant_findFirst d (String pf) (party_id p) = None
         then (403, ErrorBody ''Participant is not in this party'')
         else (409, ErrorBody ''Party has reached max songs'')))"
proof -
  have "queue_positions empty_db partyId = map int [1..<Suc 0]"
    by (simp add: queue_positions_def party_songs_def empty_db_def)
  from run_queue [OF this, of calls]
  have positions: "queue_positions (run empty_db calls) partyId =
     map int [1..<Suc (successful_adds partyId empty_db calls)]"
    by simp
  have capped: "addSong d e code_param pf tf af awf pvf exf =
        (d, [],
         if String pf = [] \<or> trim (String tf) = [] \<or> trim (String af) = []
         then (400, ErrorBody ''participantId, title and artist are required'')
         else if party_status p = ''ENDED'' then (409, ErrorBody ''Party already ended'')
         else if participant_findFirst d (String pf) (party_id p) = None
         then (403, ErrorBody ''Participant is not in this party'')
         else (409, ErrorBody ''Party has reached max songs''))"
    if found: "party_findUnique d (toUpperCase code_param) = Some p"
      and cap: "party_maxSongs p = Some capacity"
      and reached: "int (length (party_songs d (party_id p))) \<ge> capacity"
  proof -
    have full: "queue_full d p"
      using cap reached by (simp add: queue_full_def)
    from addSong_at_capacity [OF found full] show ?thesis .
  qed
  from positions capped show ?thesis by blast
qed

theorem queue_positions_contiguous_and_capped_witness:
  "queue_positions (run empty_db demo_calls) ''p1'' = [1, 2] \<and>
   successful_adds ''p1'' empty_db demo_calls = 2 \<and>
   party_findUnique demo_db (toUpperCase ''abc234'') = Some demo_party \<and>
   party_maxSongs demo_party = Some 2 \<and>
   int (length (party_songs demo_db (party_id demo_party))) \<ge> 2 \<and>
   addSong demo_db (demo_env\<lparr>env_id1 := ''s3''\<rparr>) ''abc234'' (Some ''h1'') (Some ''C'') (Some ''z'')
     None None None =
     (demo_db, [], (409, ErrorBody ''Party has reached max songs''))"
proof -
  have h: "party_findUnique demo_db (toUpperCase ''abc234'') = Some demo_party \<and>
    party_maxSongs demo_party = Some 2 \<and>
    int (length (party_songs demo_db (party_id demo_party))) \<ge> 2"
    by code_simp
  have v: "String (Some ''h1'') \<noteq> [] \<and> trim (String (Some ''C'')) \<noteq> [] \<and>
    trim (String (Some ''z'')) \<noteq> [] \<and> party_status demo_party \<noteq> ''ENDED'' \<and>
    participant_findFirst demo_db (String (Some ''h1'')) (party_id demo_party) \<noteq> None"
    by code_simp
  from queue_positions_contiguous_and_capped [of demo_calls "''p1''" demo_db "''abc234''"
         demo_party 2 "demo_env\<lparr>env_id1 := ''s3''\<rparr>" "Some ''h1''" "Some ''C''" "Some ''z''"
         None None None] h v demo_queue
  show ?thesis by simp
qed

text \<open>
  C2 as stated fails for an add that does not reach the capacity check: on the demo
  party, which holds 2 songs and has capacity 2, an add by someone who is not a
  participant is answered 403, and an add without a title is answered 400, not 409
  "Party has reached max songs".
\<close>

theorem full_queue_earlier_checks_counterexample:
  "party_findUnique demo_db (toUpperCase ''abc234'') = Some demo_party \<and>
   party_maxSongs demo_party = Some 2 \<and>
   length (party_songs demo_db (party_id demo_party)) = 2 \<and>
   addSong demo_db (demo_env\<lparr>env_id1 := ''s3''\<rparr>) ''abc234'' (Some ''nobody'') (Some ''C'')
     (Some ''z'') None None None =
     (demo_db, [], (403, ErrorBody ''Participant is not in this party'')) \<and>
   addSong demo_db (demo_env\<lparr>env_id1 := ''s3''\<rparr>) ''abc234'' (Some ''h1'') None
     (Some ''z'') None None None =
     (demo_db, [], (400, ErrorBody ''participantId, title and artist are required''))"
  by code_simp

section \<open>Votes\<close>

lemma vote_count_pairs:
  "vote_count d sid = int (size (filter_mset (\<lambda>pr. fst pr = sid) (mset (vote_pairs d))))"
proof -
  have "length (filter (\<lambda>v. vote_songId v = sid) (db_votes d)) =
        length (filter (\<lambda>pr. fst pr = sid) (vote_pairs d))"
    by (simp add: vote_pairs_def filter_map o_def)
  moreover have "size (filter_mset (\<lambda>pr. fst pr = sid) (mset (vote_pairs d))) =
        length (filter (\<lambda>pr. fst pr = sid) (vote_pairs d))"
    by (simp only: mset_filter [symmetric] size_mset)
  ultimately show ?thesis
    by (simp add: vote_count_def song_votes_def)
qed

lemma filter_other_ids:
  "distinct (map vote_id xs) \<Longrightarrow> v \<in> set xs \<Longrightarrow>
   mset (filter (\<lambda>x. vote_id x \<noteq> vote_id v) xs) = mset xs - {#v#}"
proof (induction xs)
  case Nil
  then show ?case by simp
next
  case (Cons x xs)
  show ?case
  proof (cases "x = v")
    case True
    from Cons.prems(1) have "vote_id x \<notin> vote_id ` set xs" by simp
    with True have "\<forall>y\<in>set xs. vote_id y \<noteq> vote_id v" by (metis imageI)
    then have "filter (\<lambda>x. vote_id x \<noteq> vote_id v) xs = xs"
      by (simp add: filter_id_conv)
    with True show ?thesis by simp
  next
    case False
    with Cons.prems have "v \<in> set xs" "vote_id x \<noteq> vote_id v" by auto
    with Cons False show ?thesis by simp
  qed
qed

lemma vote_findFirst_SomeD:
  "vote_findFirst d sid pid = Some v \<Longrightarrow>
   v \<in> set (db_votes d) \<and> vote_songId v = sid \<and> vote_participantId v = pid"
  by (auto simp: vote_findFirst_def find_Some_iff)

lemma vote_findFirst_None:
  "vote_findFirst d sid pid = None \<longleftrightarrow> (sid, pid) \<notin> set (vote_pairs d)"
  by (auto simp: vote_findFirst_def find_None_iff vote_pairs_def)

lemma vote_clash_iff: "(\<exists>q\<in>S. vote_id q = vote_id v \<or> (vote_songId q = vote_songId v \<and> vote_participantId q = vote_participantId v))
  \<longleftrightarrow> (\<exists>q\<in>S. vote_id v = vote_id q) \<or> (\<exists>q\<in>S. vote_songId v = vote_songId q \<and> vote_participantId v = vote_participantId q)"
  by (auto simp del: ex_simps) metis+

lemma vote_create_Some:
  "vote_create d v = Some d' \<longleftrightarrow>
   d' = d\<lparr>db_votes := db_votes d @ [v]\<rparr> \<and> vote_id v \<notin> vote_id ` set (db_votes d) \<and>
   (vote_songId v, vote_participantId v) \<notin> set (vote_pairs d)"
  using vote_clash_iff [of "set (db_votes d)" v]
  by (simp add: vote_create_def list_ex_iff vote_pairs_def image_iff) blast

lemma lookups_ignore_votes:
  "db_parties d' = db_parties d \<Longrightarrow> party_findUnique d' c = party_findUnique d c"
  "db_participants d' = db_participants d \<Longrightarrow>
   participant_findFirst d' pid partyId = participant_findFirst d pid partyId"
  "db_songs d' = db_songs d \<Longrightarrow> song_findFirst d' sid partyId = song_findFirst d sid partyId"
  by (simp_all add: party_findUnique_def participant_findFirst_def song_findFirst_def)

lemma toggle_back_after_unvote:
  assumes uniq: "votes_unique d"
    and ne: "String pf \<noteq> []" "String sf \<noteq> []"
    and party: "party_findUnique d (toUpperCase c) = Some p" "party_status p \<noteq> ''ENDED''"
    and member: "participant_findFirst d (String pf) (party_id p) \<noteq> None"
    and song: "song_findFirst d (String sf) (party_id p) \<noteq> None"
    and v: "vote_findFirst d (String sf) (String pf) = Some v"
    and fresh: "env_id1 e2 \<notin> vote_id ` set (db_votes (vote_delete d (vote_id v)))"
  shows "\<exists>d2. toggleVote (vote_delete d (vote_id v)) e2 c pf sf =
                 voted_outcome d2 (toUpperCase c) (String sf) True \<and>
              mset (vote_pairs d2) = mset (vote_pairs d)"
proof -
  let ?d1 = "vote_delete d (vote_id v)"
  let ?new = "cast_vote e2 p (String sf) (String pf)"
  from vote_findFirst_SomeD [OF v]
  have vin: "v \<in> set (db_votes d)" and vpair: "vote_songId v = String sf"
    "vote_participantId v = String pf" by simp_all
  from uniq have dist: "distinct (map vote_id (db_votes d))"
    and inj: "inj_on (\<lambda>v. (vote_songId v, vote_participantId v)) (set (db_votes d))"
    by (simp_all add: votes_unique_def distinct_map)
  have rest: "mset (db_votes ?d1) = mset (db_votes d) - {#v#}"
    using filter_other_ids [OF dist vin] by (simp add: vote_delete_def)
  have gone: "(String sf, String pf) \<notin> set (vote_pairs ?d1)"
  proof
    assume "(String sf, String pf) \<in> set (vote_pairs ?d1)"
    then obtain w where w: "w \<in> set (db_votes d)" "vote_id w \<noteq> vote_id v"
      "vote_songId w = String sf" "vote_participantId w = String pf"
      by (auto simp: vote_pairs_def vote_delete_def)
    with vpair have "(\<lambda>v. (vote_songId v, vote_participantId v)) w =
                     (\<lambda>v. (vote_songId v, vote_participantId v)) v"
      by simp
    from inj_onD [OF inj this w(1) vin] have "w = v" .
    with w(2) show False by simp
  qed
  then have none: "vote_findFirst ?d1 (String sf) (String pf) = None"
    by (simp add: vote_findFirst_None)
  have tables: "db_parties ?d1 = db_parties d" "db_participants ?d1 = db_participants d"
    "db_songs ?d1 = db_songs d"
    by (simp_all add: vote_delete_def)
  have created: "vote_create ?d1 ?new = Some (?d1\<lparr>db_votes := db_votes ?d1 @ [?new]\<rparr>)"
    using fresh gone by (simp add: vote_create_Some cast_vote_def)
  have "toggleVote ?d1 e2 c pf sf =
          voted_outcome (?d1\<lparr>db_votes := db_votes ?d1 @ [?new]\<rparr>) (toUpperCase c) (String sf) True"
    using toggleVote_create [of pf sf ?d1 c p e2] ne party member song none created
    by (simp add: lookups_ignore_votes(1) [OF tables(1)] lookups_ignore_votes(2) [OF tables(2)]
          lookups_ignore_votes(3) [OF tables(3)])
  moreover have "mset (vote_pairs (?d1\<lparr>db_votes := db_votes ?d1 @ [?new]\<rparr>)) = mset (vote_pairs d)"
  proof -
    let ?pair = "\<lambda>v. (vote_songId v, vote_participantId v)"
    have "mset (db_votes ?d1) + {#v#} = mset (db_votes d)"
      using rest vin by simp
    then have "image_mset ?pair (mset (db_votes ?d1) + {#v#}) =
               image_mset ?pair (mset (db_votes d))"
      by (rule arg_cong)
    then have "image_mset ?pair (mset (db_votes ?d1)) + {#(String sf, String pf)#} =
               image_mset ?pair (mset (db_votes d))"
      by (simp add: vpair)
    then show ?thesis
      by (simp add: vote_pairs_def cast_vote_def)
  qed
  ultimately show ?thesis by blast
qed

lemma toggle_back_after_vote:
  assumes ne: "String pf \<noteq> []" "String sf \<noteq> []"
    and party: "party_findUnique d (toUpperCase c) = Some p" "party_status p \<noteq> ''ENDED''"
    and member: "participant_findFirst d (String pf) (party_id p) \<noteq> None"
    and song: "song_findFirst d (String sf) (party_id p) \<noteq> None"
    and created: "vote_create d (cast_vote e1 p (String sf) (String pf)) =
                    Some (d\<lparr>db_votes := db_votes d @ [cast_vote e1 p (String sf) (String pf)]\<rparr>)"
  shows "toggleVote (d\<lparr>db_votes := db_votes d @ [cast_vote e1 p (String sf) (String pf)]\<rparr>)
           e2 c pf sf =
         voted_outcome d (toUpperCase c) (String sf) False"
proof -
  let ?new = "cast_vote e1 p (String sf) (String pf)"
  let ?d1 = "d\<lparr>db_votes := db_votes d @ [?new]\<rparr>"
  from created have fresh: "env_id1 e1 \<notin> vote_id ` set (db_votes d)"
    and absent: "(String sf, String pf) \<notin> set (vote_pairs d)"
    by (simp_all add: vote_create_Some cast_vote_def)
  from absent have "find (\<lambda>v. vote_songId v = String sf \<and> vote_participantId v = String pf)
                      (db_votes d) = None"
    using vote_findFirst_None [of d "String sf" "String pf"] by (simp add: vote_findFirst_def)
  then have found: "vote_findFirst ?d1 (String sf) (String pf) = Some ?new"
    by (simp add: vote_findFirst_def find_append_cases cast_vote_def)
  have "filter (\<lambda>v. vote_id v \<noteq> env_id1 e1) (db_votes d) = db_votes d"
    using fresh by (force simp: filter_id_conv image_iff)
  then have restored: "vote_delete ?d1 (vote_id ?new) = d"
    by (simp add: vote_delete_def cast_vote_def)
  show ?thesis
    using toggleVote_delete [of pf sf ?d1 c p ?new e2] ne party member song found restored
    by (simp add: party_findUnique_def participant_findFirst_def song_findFirst_def)
qed

lemma toggleVote_votes_unique:
  assumes "votes_unique d"
  shows "votes_unique (fst (toggleVote d e c pf sf))"
proof (cases rule: toggleVote_cases [where d = d and e = e and c = c and pf = pf and sf = sf])
  case (unvoted p v)
  with assms show ?thesis
    by (simp add: voted_outcome_def vote_delete_def votes_unique_def distinct_map_filter)
next
  case (voted p)
  from voted(8) have "vote_id (cast_vote e p (String sf) (String pf)) \<notin> vote_id ` set (db_votes d)"
    "(vote_songId (cast_vote e p (String sf) (String pf)),
      vote_participantId (cast_vote e p (String sf) (String pf))) \<notin> set (vote_pairs d)"
    by (simp_all add: vote_create_Some)
  with assms voted(9) show ?thesis
    by (simp add: voted_outcome_def votes_unique_def vote_pairs_def)
qed (use assms in \<open>simp_all add: fail_def\<close>)

lemma votes_unique_same:
  "db_votes d' = db_votes d \<Longrightarrow> votes_unique d' = votes_unique d"
  by (simp add: votes_unique_def)

lemma handle_votes_unique:
  assumes "votes_unique d"
  shows "votes_unique (fst (handle d c))"
proof -
  obtain e r where c: "c = (e, r)" by (cases c)
  show ?thesis
  proof (cases r)
    case (CreateParty n h ms dm)
    then show ?thesis using c assms by (simp add: votes_unique_same [OF createParty_tables(3)])
  next
    case (JoinParty cp n)
    then show ?thesis using c assms by (simp add: votes_unique_same [OF joinParty_tables(3)])
  next
    case (GetParty cp)
    then show ?thesis using c assms by (simp add: getParty_db)
  next
    case (AddSong cp pid t a aw pv ex)
    then show ?thesis using c assms by (simp add: votes_unique_same [OF addSong_tables(2)])
  next
    case (ToggleVote cp pid sid)
    then show ?thesis using c toggleVote_votes_unique [OF assms] by simp
  next
    case (SetCurrentSong cp pid sid)
    then show ?thesis using c assms by (simp add: votes_unique_same [OF setCurrentSong_tables(3)])
  next
    case (SetPlayback cp pid act off)
    then show ?thesis using c assms by (simp add: votes_unique_same [OF setPlayback_tables(3)])
  next
    case (EndParty cp pid)
    then show ?thesis using c assms by (simp add: votes_unique_same [OF endParty_tables(3)])
  qed
qed

lemma run_votes_unique: "votes_unique d \<Longrightarrow> votes_unique (run d cs)"
  by (induction cs arbitrary: d) (simp_all add: handle_votes_unique)

lemma reachable_votes_unique: "votes_unique (run empty_db calls)"
  by (rule run_votes_unique) (simp add: votes_unique_def empty_db_def)

lemma vote_count_from_pairs:
  "mset (vote_pairs d2) = mset (vote_pairs d) \<Longrightarrow> vote_count d2 sid = vote_count d sid"
  by (simp add: vote_count_pairs)

text \<open>
  C5. In a database that respects the primary key and the unique index of the Vote table
  (as every reachable database does), if a vote toggle succeeds and is repeated for the
  same party, participant and song, with an id for the new row that is not in use, then
  the second call succeeds, reports the opposite of the first call's \<open>voted\<close>, reports the
  vote count the song had before the first call, and leaves the (song, participant) pairs
  of the votes, hence every vote count, as they were before the first call.
\<close>

theorem toggleVote_twice_restores:
  assumes "votes_unique d"
    and "d1 = fst (toggleVote d e1 code_param participantId_field songId_field)"
    and "snd (snd (toggleVote d e1 code_param participantId_field songId_field)) =
           (200, VoteBody songId voteCount1 voted1)"
    and "env_id1 e2 \<notin> vote_id ` set (db_votes d1)"
    and "d2 = fst (toggleVote d1 e2 code_param participantId_field songId_field)"
  shows "snd (snd (toggleVote d1 e2 code_param participantId_field songId_field)) =
           (200, VoteBody songId (vote_count d songId) (\<not> voted1)) \<and>
         mset (vote_pairs d2) = mset (vote_pairs d) \<and>
         vote_count d2 songId = vote_count d songId"
proof (cases rule: toggleVote_cases [where d = d and e = e1 and c = code_param
                                       and pf = participantId_field and sf = songId_field])
  case (unvoted p v)
  from unvoted(8) assms(2,3) have first: "d1 = vote_delete d (vote_id v)"
    "songId = String songId_field" "voted1 = False"
    by (simp_all add: voted_outcome_def)
  from toggle_back_after_unvote [OF assms(1) unvoted(1-7), of e2] assms(4) first(1)
  obtain d' where second: "toggleVote d1 e2 code_param participantId_field songId_field =
      voted_outcome d' (toUpperCase code_param) (String songId_field) True"
    "mset (vote_pairs d') = mset (vote_pairs d)"
    by auto
  from second(1) assms(5) have "d2 = d'" by (simp add: voted_outcome_def)
  with second first vote_count_from_pairs [OF second(2), of songId] show ?thesis
    by (simp add: voted_outcome_def)
next
  case (voted p)
  from voted(9) assms(2,3) have first:
    "d1 = d\<lparr>db_votes := db_votes d @
             [cast_vote e1 p (String songId_field) (String participantId_field)]\<rparr>"
    "songId = String songId_field" "voted1 = True"
    by (simp_all add: voted_outcome_def)
  from toggle_back_after_vote [OF voted(1-6) voted(8), of e2] first(1)
  have second: "toggleVote d1 e2 code_param participantId_field songId_field =
      voted_outcome d (toUpperCase code_param) (String songId_field) False"
    by simp
  with assms(5) have "d2 = d" by (simp add: voted_outcome_def)
  with second first show ?thesis
    by (simp add: voted_outcome_def)
qed (use assms(3) in \<open>simp_all add: fail_def\<close>)

theorem toggleVote_twice_restores_witness:
  "votes_unique demo_db \<and>
   snd (snd (toggleVote demo_db (demo_env\<lparr>env_id1 := ''v2''\<rparr>) ''abc234'' (Some ''h1'')
               (Some ''s2''))) = (200, VoteBody ''s2'' 0 False) \<and>
   env_id1 (demo_env\<lparr>env_id1 := ''v3''\<rparr>) \<notin>
     vote_id ` set (db_votes (fst (toggleVote demo_db (demo_env\<lparr>env_id1 := ''v2''\<rparr>) ''abc234''
                                    (Some ''h1'') (Some ''s2'')))) \<and>
   snd (snd (toggleVote
               (fst (toggleVote demo_db (demo_env\<lparr>env_id1 := ''v2''\<rparr>) ''abc234''
                      (Some ''h1'') (Some ''s2'')))
               (demo_env\<lparr>env_id1 := ''v3''\<rparr>) ''abc234'' (Some ''h1'') (Some ''s2''))) =
     (200, VoteBody ''s2'' (vote_count demo_db ''s2'') (\<not> False)) \<and>
   vote_count demo_db ''s2'' = 1"
proof -
  have u: "votes_unique demo_db" by code_simp
  have r: "snd (snd (toggleVote demo_db (demo_env\<lparr>env_id1 := ''v2''\<rparr>) ''abc234'' (Some ''h1'')
               (Some ''s2''))) = (200, VoteBody ''s2'' 0 False)"
    by code_simp
  have f: "env_id1 (demo_env\<lparr>env_id1 := ''v3''\<rparr>) \<notin>
     vote_id ` set (db_votes (fst (toggleVote demo_db (demo_env\<lparr>env_id1 := ''v2''\<rparr>) ''abc234''
                                    (Some ''h1'') (Some ''s2''))))"
    by code_simp
  have n: "vote_count demo_db ''s2'' = 1" by code_simp
  from toggleVote_twice_restores [OF u refl r f refl] u r f n show ?thesis
    by blast
qed

text \<open>
  C8. The create handler either answers 201, and then the database holds, in addition to
  what it held, the new party with its host reference set to the new host participant and
  that participant (a host, in that party), with songs and votes untouched; or it answers
  another status, and then the database is exactly what it was and no event was sent.
  A failure inside the transaction discards the party row already written in it.
\<close>

theorem createParty_atomic:
  "(fst (snd (snd (createParty d e name_field hostName_field maxSongs durationMinutes))) = 201 \<longrightarrow>
      (\<exists>p m. snd (snd (createParty d e name_field hostName_field maxSongs durationMinutes)) =
                (201, PartyCreatedBody p m) \<and>
              db_parties (fst (createParty d e name_field hostName_field maxSongs durationMinutes)) =
                db_parties d @ [p\<lparr>party_hostParticipantId := Some (participant_id m)\<rparr>] \<and>
              db_participants
                (fst (createParty d e name_field hostName_field maxSongs durationMinutes)) =
                db_participants d @ [m] \<and>
              participant_isHost m \<and> participant_partyId m = party_id p \<and>
              party_status p = ''ACTIVE'' \<and>
              db_songs (fst (createParty d e name_field hostName_field maxSongs durationMinutes)) =
                db_songs d \<and>
              db_votes (fst (createParty d e name_field hostName_field maxSongs durationMinutes)) =
                db_votes d)) \<and>
   (fst (snd (snd (createParty d e name_field hostName_field maxSongs durationMinutes))) \<noteq> 201 \<longrightarrow>
      fst (createParty d e name_field hostName_field maxSongs durationMinutes) = d \<and>
      fst (snd (createParty d e name_field hostName_field maxSongs durationMinutes)) = [])"
proof (cases rule: createParty_cases [where d = d and e = e and nf = name_field
         and hf = hostName_field and ms = maxSongs and dm = durationMinutes])
  case (failed code msg)
  then show ?thesis by (simp add: fail_def)
next
  case (ok code)
  have "participant_isHost (created_host e (trim (String hostName_field)))"
    "participant_partyId (created_host e (trim (String hostName_field))) =
       party_id (created_party e code (trim (String name_field)) maxSongs durationMinutes)"
    "party_status (created_party e code (trim (String name_field)) maxSongs durationMinutes) =
       ''ACTIVE''"
    by (simp_all add: created_host_def created_party_def)
  with ok(2) show ?thesis
    by (simp add: created_db_def)
qed

theorem createParty_atomic_witness:
  "fst (snd (snd (createParty empty_db demo_env (Some ''Party'') (Some ''Host'') (Some 2) None))) =
     201 \<and>
   db_parties (fst (createParty empty_db demo_env (Some ''Party'') (Some ''Host'') (Some 2) None)) =
     [demo_party] \<and>
   db_participants
     (fst (createParty empty_db demo_env (Some ''Party'') (Some ''Host'') (Some 2) None)) =
     [demo_host] \<and>
   party_create demo_db
     (created_party (demo_env\<lparr>env_id1 := ''p2'', env_codes := (\<lambda>i. ''XYZ789'')\<rparr>) ''XYZ789''
        ''Other'' None None) \<noteq> None \<and>
   fst (snd (snd (createParty demo_db (demo_env\<lparr>env_id1 := ''p2'', env_codes := (\<lambda>i. ''XYZ789'')\<rparr>)
                    (Some ''Other'') (Some ''Host'') None None))) \<noteq> 201 \<and>
   fst (createParty demo_db (demo_env\<lparr>env_id1 := ''p2'', env_codes := (\<lambda>i. ''XYZ789'')\<rparr>)
          (Some ''Other'') (Some ''Host'') None None) = demo_db \<and>
   fst (snd (createParty demo_db (demo_env\<lparr>env_id1 := ''p2'', env_codes := (\<lambda>i. ''XYZ789'')\<rparr>)
               (Some ''Other'') (Some ''Host'') None None)) = []"
proof -
  have ok: "fst (snd (snd (createParty empty_db demo_env (Some ''Party'') (Some ''Host'')
                             (Some 2) None))) = 201"
    by code_simp
  have rows: "db_parties (fst (createParty empty_db demo_env (Some ''Party'') (Some ''Host'')
                                 (Some 2) None)) = [demo_party]"
    "db_participants (fst (createParty empty_db demo_env (Some ''Party'') (Some ''Host'')
                             (Some 2) None)) = [demo_host]"
    by code_simp+
  have written: "party_create demo_db
     (created_party (demo_env\<lparr>env_id1 := ''p2'', env_codes := (\<lambda>i. ''XYZ789'')\<rparr>) ''XYZ789''
        ''Other'' None None) \<noteq> None"
    by code_simp
  have failed: "fst (snd (snd (createParty demo_db
                   (demo_env\<lparr>env_id1 := ''p2'', env_codes := (\<lambda>i. ''XYZ789'')\<rparr>)
                   (Some ''Other'') (Some ''Host'') None None))) \<noteq> 201"
    by code_simp
  from createParty_atomic [of demo_db "demo_env\<lparr>env_id1 := ''p2'', env_codes := (\<lambda>i. ''XYZ789'')\<rparr>"
         "Some ''Other''" "Some ''Host''" None None] failed
  have "fst (createParty demo_db (demo_env\<lparr>env_id1 := ''p2'', env_codes := (\<lambda>i. ''XYZ789'')\<rparr>)
          (Some ''Other'') (Some ''Host'') None None) = demo_db \<and>
   fst (snd (createParty demo_db (demo_env\<lparr>env_id1 := ''p2'', env_codes := (\<lambda>i. ''XYZ789'')\<rparr>)
               (Some ''Other'') (Some ''Host'') None None)) = []"
    by blast
  with ok rows written failed show ?thesis by blast
qed

section \<open>Snapshots after a write\<close>

lemma emitPartySnapshot_found:
  "party_findUnique d code = Some p \<Longrightarrow>
   \<exists>snap. getPartySnapshot d code = Some snap \<and>
          emitPartySnapshot d code = [(code, PartySnapshot snap)]"
  by (simp add: emitPartySnapshot_def getPartySnapshot_def)

lemma getParty_found:
  "party_findUnique d (toUpperCase c) = Some p \<Longrightarrow>
   \<exists>snap. getPartySnapshot d (toUpperCase c) = Some snap \<and>
          getParty d c = (d, [], (200, SnapshotBody snap))"
  by (simp add: getParty_def getPartySnapshot_def)

lemma demo_read_after_end:
  "getParty demo_ended_db ''abc234'' = (demo_ended_db, [], (200, SnapshotBody demo_ended_snapshot))"
  by code_simp

text \<open>
  C7, as the code has it. When the end handler succeeds it returns the winner and the
  standings in its response and sends them in the ended event, and writes nothing but
  status ENDED and the end time into the party row: participants, songs and votes are
  untouched and no standings are stored. After any further calls, an end call for the
  party changes nothing, sends nothing and is answered with an error, so the standings
  are computed once; a read answers with the snapshot of the stored state.
\<close>

theorem endParty_result_returned_not_stored:
  assumes "endParty d e code_param participantId_field = (d', evs, (200, b))"
  shows "\<exists>p. party_findUnique d (toUpperCase code_param) = Some p \<and>
           b = EndBody (first_or_null (end_standings d (party_id p)))
                 (end_standings d (party_id p)) \<and>
           take 1 evs = [(toUpperCase code_param,
                          PartyEnded (first_or_null (end_standings d (party_id p)))
                            (end_standings d (party_id p)))] \<and>
           db_parties d' =
             map (\<lambda>q. if party_id q = party_id p
                       then q\<lparr>party_status := ''ENDED'', party_endedAt := Some (env_now e)\<rparr>
                       else q) (db_parties d) \<and>
           db_participants d' = db_participants d \<and> db_songs d' = db_songs d \<and>
           db_votes d' = db_votes d \<and>
           (\<exists>code msg. handle (run d' calls) (e', EndParty code_param pf') =
                         (run d' calls, [], (code, ErrorBody msg))) \<and>
           (\<exists>snap. getPartySnapshot (run d' calls) (toUpperCase code_param) = Some snap \<and>
                   getParty (run d' calls) code_param =
                     (run d' calls, [], (200, SnapshotBody snap)))"
proof (cases rule: endParty_cases [where d = d and e = e and c = code_param
                                     and pf = participantId_field])
  case (ok p)
  from ok(5) assms have d': "d' = ended_db d (party_id p) (env_now e)"
    and b: "b = EndBody (first_or_null (end_standings d (party_id p)))
                  (end_standings d (party_id p))"
    and evs: "take 1 evs = [(toUpperCase code_param,
                          PartyEnded (first_or_null (end_standings d (party_id p)))
                            (end_standings d (party_id p)))]"
    by auto
  from endParty_marks_ended [OF assms] obtain q where
    "party_findUnique d' (toUpperCase code_param) = Some q" "party_status q = ''ENDED''"
    by blast
  from run_ended [OF this, of calls] obtain q' where
    q': "party_findUnique (run d' calls) (toUpperCase code_param) = Some q'"
    "party_status q' = ''ENDED''"
    by blast
  have "mutating_on (toUpperCase code_param) (EndParty code_param pf')" by simp
  from ended_rejects [OF q' this, of e']
  have again: "\<exists>code msg. handle (run d' calls) (e', EndParty code_param pf') =
                 (run d' calls, [], (code, ErrorBody msg))"
    by (simp add: fail_def)
  from ok(2) d' b evs again getParty_found [OF q'(1)] show ?thesis
    by (simp add: ended_db_def party_map_tables)
qed (use assms in \<open>simp_all add: fail_def\<close>)

theorem endParty_result_returned_not_stored_witness:
  "endParty demo_db (demo_env\<lparr>env_now := 3000\<rparr>) ''abc234'' (Some ''h1'') =
     (demo_ended_db,
      [(''ABC234'', PartyEnded (Some (demo_standings ! 0)) demo_standings),
       (''ABC234'', PartyStateUpdated None ''ENDED'')] @
        emitPartySnapshot demo_ended_db ''ABC234'',
      (200, EndBody (Some (demo_standings ! 0)) demo_standings)) \<and>
   (\<exists>p. party_findUnique demo_db (toUpperCase ''abc234'') = Some p \<and>
      EndBody (Some (demo_standings ! 0)) demo_standings =
        EndBody (first_or_null (end_standings demo_db (party_id p)))
          (end_standings demo_db (party_id p)) \<and>
      db_songs demo_ended_db = db_songs demo_db \<and> db_votes demo_ended_db = db_votes demo_db \<and>
      (\<exists>code msg. handle (run demo_ended_db []) (demo_env, EndParty ''abc234'' (Some ''h1'')) =
                    (run demo_ended_db [], [], (code, ErrorBody msg))))"
proof -
  from endParty_result_returned_not_stored [OF demo_endParty, of "[]" demo_env "Some ''h1''"]
    demo_endParty
  show ?thesis by blast
qed

text \<open>
  C7 as stated fails: ending the demo party changes only its status and end time, and a
  read afterwards returns the songs in queue order (s1, s2) with their vote counts, where
  the standings were s2, s1; winner and ranks are stored nowhere.
\<close>

theorem endParty_standings_not_persisted_counterexample:
  "fst (endParty demo_db (demo_env\<lparr>env_now := 3000\<rparr>) ''abc234'' (Some ''h1'')) =
     demo_db\<lparr>db_parties := [demo_party\<lparr>party_status := ''ENDED'', party_endedAt := Some 3000\<rparr>]\<rparr> \<and>
   snd (snd (endParty demo_db (demo_env\<lparr>env_now := 3000\<rparr>) ''abc234'' (Some ''h1''))) =
     (200, EndBody (Some (demo_standings ! 0)) demo_standings) \<and>
   map entry_songId demo_standings = [''s2'', ''s1''] \<and>
   snd (snd (getParty demo_ended_db ''abc234'')) = (200, SnapshotBody demo_ended_snapshot) \<and>
   map (\<lambda>v. song_id (view_song v)) (snap_songs demo_ended_snapshot) = [''s1'', ''s2'']"
proof -
  have "map entry_songId demo_standings = [''s2'', ''s1'']"
    by code_simp
  moreover have "map (\<lambda>v. song_id (view_song v)) (snap_songs demo_ended_snapshot) =
                 [''s1'', ''s2'']"
    by code_simp
  moreover have "fst (endParty demo_db (demo_env\<lparr>env_now := 3000\<rparr>) ''abc234'' (Some ''h1'')) =
     demo_db\<lparr>db_parties := [demo_party\<lparr>party_status := ''ENDED'', party_endedAt := Some 3000\<rparr>]\<rparr>"
    by (simp add: demo_endParty demo_ended_db_def)
  ultimately show ?thesis
    by (simp add: demo_endParty demo_read_after_end)
qed

section \<open>The events of a successful call\<close>

lemma party_findUnique_same:
  "db_parties d' = db_parties d \<Longrightarrow> party_findUnique d' c = party_findUnique d c"
  by (simp add: party_findUnique_def)

lemma addSong_events:
  assumes "addSong d e c pf tf af awf pvf exf = (d', evs, (201, b))"
  shows "\<exists>snap. getPartySnapshot d' (toUpperCase c) = Some snap \<and>
           evs = [(toUpperCase c, PartySnapshot snap), (toUpperCase c, QueueUpdated (env_id1 e))]"
proof (cases rule: addSong_cases [where d = d and e = e and c = c and pf = pf and tf = tf
                                    and af = af and awf = awf and pvf = pvf and exf = exf])
  case (ok p d1)
  with assms have d': "d' = d1" and evs:
    "evs = emitPartySnapshot d1 (toUpperCase c) @ [(toUpperCase c, QueueUpdated (env_id1 e))]"
    by auto
  have "party_findUnique d1 (toUpperCase c) = Some p"
    using ok(4,8) by (simp add: party_findUnique_def)
  from emitPartySnapshot_found [OF this] d' evs show ?thesis by auto
qed (use assms in \<open>simp_all add: fail_def\<close>)

lemma voted_outcome_events:
  "voted_outcome d1 code sid v = (d', evs, rb) \<Longrightarrow>
   d' = d1 \<and> evs = (code, VotesUpdated sid (vote_count d' sid)) # emitPartySnapshot d' code"
  by (auto simp: voted_outcome_def)

lemma toggleVote_events:
  assumes "toggleVote d e c pf sf = (d', evs, (200, b))"
  shows "\<exists>snap. getPartySnapshot d' (toUpperCase c) = Some snap \<and>
           evs = [(toUpperCase c, VotesUpdated (String sf) (vote_count d' (String sf))),
                  (toUpperCase c, PartySnapshot snap)]"
proof -
  have parties: "db_parties d' = db_parties d"
    using toggleVote_tables(1) [of d e c pf sf] assms by simp
  have found: "\<exists>snap. getPartySnapshot d' (toUpperCase c) = Some snap \<and>
                 emitPartySnapshot d' (toUpperCase c) = [(toUpperCase c, PartySnapshot snap)]"
    if "party_findUnique d (toUpperCase c) = Some p" for p
    using emitPartySnapshot_found [of d' "toUpperCase c" p] that
    by (simp add: party_findUnique_same [OF parties])
  show ?thesis
  proof (cases rule: toggleVote_cases [where d = d and e = e and c = c and pf = pf and sf = sf])
    case (unvoted p v)
    from voted_outcome_events [OF trans [OF unvoted(8) [symmetric] assms]] found [OF unvoted(3)]
    show ?thesis by auto
  next
    case (voted p)
    from voted_outcome_events [OF trans [OF voted(9) [symmetric] assms]] found [OF voted(3)]
    show ?thesis by auto
  qed (use assms in \<open>simp_all add: fail_def\<close>)
qed

lemma setCurrentSong_events:
  assumes "setCurrentSong d e c pf sf = (d', evs, (200, b))"
  shows "\<exists>snap status. getPartySnapshot d' (toUpperCase c) = Some snap \<and>
           evs = [(toUpperCase c, PartyStateUpdated (Some (Some (String sf))) status),
                  (toUpperCase c, PartySnapshot snap)]"
proof (cases rule: setCurrentSong_cases [where d = d and e = e and c = c and pf = pf
                                           and sf = sf])
  case (ok p updated)
  with assms have d': "d' = current_db d (party_id p) (String sf)" and evs:
    "evs = (toUpperCase c, PartyStateUpdated (Some (Some (String sf))) (party_status updated)) #
             emitPartySnapshot d' (toUpperCase c)"
    by auto
  have "party_findUnique d' (toUpperCase c) \<noteq> None"
    using ok(3) by (simp add: d' current_db_def party_findUnique_party_map)
  then obtain q where "party_findUnique d' (toUpperCase c) = Some q" by blast
  from emitPartySnapshot_found [OF this] evs show ?thesis by auto
qed (use assms in \<open>simp_all add: fail_def\<close>)

lemma setPlayback_events:
  assumes "setPlayback d e c pf af off = (d', evs, (200, b))"
  shows "\<exists>snap st sa so. getPartySnapshot d' (toUpperCase c) = Some snap \<and>
           b = PlaybackBody st sa so \<and>
           evs = [(toUpperCase c, PlaybackUpdated st sa so), (toUpperCase c, PartySnapshot snap)]"
proof (cases rule: setPlayback_cases [where d = d and e = e and c = c and pf = pf
                                        and af = af and off = off])
  case (ok p st sa so)
  with assms have d': "d' = playback_db d (party_id p) st sa so" and evs:
    "evs = (toUpperCase c, PlaybackUpdated st sa so) # emitPartySnapshot d' (toUpperCase c)"
    and b: "b = PlaybackBody st sa so"
    by auto
  have "party_findUnique d' (toUpperCase c) \<noteq> None"
    using ok(2) by (simp add: d' party_findUnique_playback_db)
  then obtain q where "party_findUnique d' (toUpperCase c) = Some q" by blast
  from emitPartySnapshot_found [OF this] evs b show ?thesis by auto
qed (use assms in \<open>simp_all add: fail_def\<close>)

lemma endParty_events:
  assumes "endParty d e c pf = (d', evs, (200, b))"
  shows "\<exists>snap winner standings. getPartySnapshot d' (toUpperCase c) = Some snap \<and>
           b = EndBody winner standings \<and>
           evs = [(toUpperCase c, PartyEnded winner standings),
                  (toUpperCase c, PartyStateUpdated None ''ENDED''),
                  (toUpperCase c, PartySnapshot snap)]"
proof (cases rule: endParty_cases [where d = d and e = e and c = c and pf = pf])
  case (ok p)
  with assms have evs:
    "evs = [(toUpperCase c, PartyEnded (first_or_null (end_standings d (party_id p)))
                              (end_standings d (party_id p))),
            (toUpperCase c, PartyStateUpdated None ''ENDED'')] @
             emitPartySnapshot d' (toUpperCase c)"
    and b: "b = EndBody (first_or_null (end_standings d (party_id p)))
                  (end_standings d (party_id p))"
    by auto
  from endParty_marks_ended [OF assms] obtain q where
    "party_findUnique d' (toUpperCase c) = Some q" by blast
  from emitPartySnapshot_found [OF this] evs b show ?thesis by auto
qed (use assms in \<open>simp_all add: fail_def\<close>)

lemma joinParty_events:
  assumes "joinParty d e c nf = (d', evs, (200, b))"
  shows "\<exists>snap. getPartySnapshot d' (toUpperCase c) = Some snap \<and>
           evs = [(toUpperCase c, PartySnapshot snap)]"
proof (cases rule: joinParty_cases [where d = d and e = e and c = c and nf = nf])
  case (failed code msg)
  with assms show ?thesis by (simp add: fail_def)
next
  case (ok p d1)
  with assms have d': "d' = d1" and evs: "evs = emitPartySnapshot d1 (toUpperCase c)"
    by auto
  have "party_findUnique d1 (toUpperCase c) = Some p"
    using ok(1,2) by (simp add: party_findUnique_def)
  from emitPartySnapshot_found [OF this] d' evs show ?thesis by auto
qed

lemma createParty_events: "fst (snd (createParty d e nf hf ms dm)) = []"
  by (cases rule: createParty_cases [where d = d and e = e and nf = nf and hf = hf
                                       and ms = ms and dm = dm])
     (simp_all add: fail_def)

lemma getParty_events: "fst (snd (getParty d c)) = []"
  by (simp add: getParty_def fail_def split: option.splits)

text \<open>
  C9, as the code has it. A call answered 200 or 201 has sent exactly these events, in
  this order, each to the room of the upper-cased code, and the snapshot in them is the
  snapshot of the database after the call: add sends the snapshot and then queue-updated;
  vote, current song and playback send their own event and then the snapshot; end sends
  ended, state-updated and then the snapshot; join sends the snapshot only; create and
  read send nothing.
\<close>

theorem success_events_order:
  assumes "handle d (e, r) = (d', evs, (st, b))" and "st = 200 \<or> st = 201"
  shows "case r of
           CreateParty n h ms dm \<Rightarrow> evs = []
         | GetParty c \<Rightarrow> evs = []
         | JoinParty c n \<Rightarrow>
             (\<exists>snap. getPartySnapshot d' (toUpperCase c) = Some snap \<and>
                evs = [(toUpperCase c, PartySnapshot snap)])
         | AddSong c pf tf af aw pv ex \<Rightarrow>
             (\<exists>snap. getPartySnapshot d' (toUpperCase c) = Some snap \<and>
                evs = [(toUpperCase c, PartySnapshot snap),
                       (toUpperCase c, QueueUpdated (env_id1 e))])
         | ToggleVote c pf sf \<Rightarrow>
             (\<exists>snap. getPartySnapshot d' (toUpperCase c) = Some snap \<and>
                evs = [(toUpperCase c, VotesUpdated (String sf) (vote_count d' (String sf))),
                       (toUpperCase c, PartySnapshot snap)])
         | SetCurrentSong c pf sf \<Rightarrow>
             (\<exists>snap status. getPartySnapshot d' (toUpperCase c) = Some snap \<and>
                evs = [(toUpperCase c, PartyStateUpdated (Some (Some (String sf))) status),
                       (toUpperCase c, PartySnapshot snap)])
         | SetPlayback c pf act off \<Rightarrow>
             (\<exists>snap status startedAt offsetSec.
                getPartySnapshot d' (toUpperCase c) = Some snap \<and>
                b = PlaybackBody status startedAt offsetSec \<and>
                evs = [(toUpperCase c, PlaybackUpdated status startedAt offsetSec),
                       (toUpperCase c, PartySnapshot snap)])
         | EndParty c pf \<Rightarrow>
             (\<exists>snap winner standings.
                getPartySnapshot d' (toUpperCase c) = Some snap \<and>
                b = EndBody winner standings \<and>
                evs = [(toUpperCase c, PartyEnded winner standings),
                       (toUpperCase c, PartyStateUpdated None ''ENDED''),
                       (toUpperCase c, PartySnapshot snap)])"
proof (cases r)
  case (CreateParty n h ms dm)
  with assms(1) createParty_events [of d e n h ms dm] show ?thesis by simp
next
  case (JoinParty c n)
  show ?thesis
  proof (cases "st = 200")
    case True
    with JoinParty assms(1) joinParty_events [of d e c n d' evs b] show ?thesis by simp
  next
    case False
    with assms(2) have "st = 201" by simp
    with JoinParty assms(1) show ?thesis
      by (cases rule: joinParty_cases [where d = d and e = e and c = c and nf = n])
         (simp_all add: fail_def)
  qed
next
  case (GetParty c)
  with assms(1) getParty_events [of d c] show ?thesis by simp
next
  case (AddSong c pf tf af aw pv ex)
  show ?thesis
  proof (cases "st = 201")
    case True
    with AddSong assms(1) addSong_events [of d e c pf tf af aw pv ex d' evs b]
    show ?thesis by simp
  next
    case False
    with assms(2) have "st = 200" by simp
    with AddSong assms(1) show ?thesis
      by (cases rule: addSong_cases [where d = d and e = e and c = c and pf = pf and tf = tf
                                       and af = af and awf = aw and pvf = pv and exf = ex])
         (simp_all add: fail_def)
  qed
next
  case (ToggleVote c pf sf)
  show ?thesis
  proof (cases "st = 200")
    case True
    with ToggleVote assms(1) toggleVote_events [of d e c pf sf d' evs b] show ?thesis by simp
  next
    case False
    with assms(2) have "st = 201" by simp
    with ToggleVote assms(1) show ?thesis
      by (cases rule: toggleVote_cases [where d = d and e = e and c = c and pf = pf
                                          and sf = sf])
         (simp_all add: fail_def voted_outcome_def)
  qed
next
  case (SetCurrentSong c pf sf)
  show ?thesis
  proof (cases "st = 200")
    case True
    with SetCurrentSong assms(1) setCurrentSong_events [of d e c pf sf d' evs b]
    show ?thesis by simp
  next
    case False
    with assms(2) have "st = 201" by simp
    with SetCurrentSong assms(1) show ?thesis
      by (cases rule: setCurrentSong_cases [where d = d and e = e and c = c and pf = pf
                                              and sf = sf])
         (simp_all add: fail_def)
  qed
next
  case (SetPlayback c pf act off)
  show ?thesis
  proof (cases "st = 200")
    case True
    with SetPlayback assms(1) setPlayback_events [of d e c pf act off d' evs b]
    show ?thesis by simp
  next
    case False
    with assms(2) have "st = 201" by simp
    with SetPlayback assms(1) show ?thesis
      by (cases rule: setPlayback_cases [where d = d and e = e and c = c and pf = pf
                                           and af = act and off = off])
         (simp_all add: fail_def)
  qed
next
  case (EndParty c pf)
  show ?thesis
  proof (cases "st = 200")
    case True
    with EndParty assms(1) endParty_events [of d e c pf d' evs b] show ?thesis by simp
  next
    case False
    with assms(2) have "st = 201" by simp
    with EndParty assms(1) show ?thesis
      by (cases rule: endParty_cases [where d = d and e = e and c = c and pf = pf])
         (simp_all add: fail_def)
  qed
qed

theorem success_events_order_witness:
  "handle demo_db (demo_env\<lparr>env_id1 := ''v2''\<rparr>, ToggleVote ''abc234'' (Some ''h1'') (Some ''s1'')) =
     (fst (toggleVote demo_db (demo_env\<lparr>env_id1 := ''v2''\<rparr>) ''abc234'' (Some ''h1'') (Some ''s1'')),
      fst (snd (toggleVote demo_db (demo_env\<lparr>env_id1 := ''v2''\<rparr>) ''abc234'' (Some ''h1'')
                  (Some ''s1''))),
      (200, VoteBody ''s1'' 1 True)) \<and>
   (\<exists>snap.
      getPartySnapshot
        (fst (toggleVote demo_db (demo_env\<lparr>env_id1 := ''v2''\<rparr>) ''abc234'' (Some ''h1'')
                (Some ''s1''))) (toUpperCase ''abc234'') = Some snap \<and>
      fst (snd (toggleVote demo_db (demo_env\<lparr>env_id1 := ''v2''\<rparr>) ''abc234'' (Some ''h1'')
                  (Some ''s1''))) =
        [(toUpperCase ''abc234'',
          VotesUpdated (String (Some ''s1''))
            (vote_count
               (fst (toggleVote demo_db (demo_env\<lparr>env_id1 := ''v2''\<rparr>) ''abc234'' (Some ''h1'')
                       (Some ''s1''))) (String (Some ''s1'')))),
         (toUpperCase ''abc234'', PartySnapshot snap)])"
proof -
  have r: "snd (snd (toggleVote demo_db (demo_env\<lparr>env_id1 := ''v2''\<rparr>) ''abc234'' (Some ''h1'')
                       (Some ''s1''))) = (200, VoteBody ''s1'' 1 True)"
    by code_simp
  have h: "handle demo_db
             (demo_env\<lparr>env_id1 := ''v2''\<rparr>, ToggleVote ''abc234'' (Some ''h1'') (Some ''s1'')) =
     (fst (toggleVote demo_db (demo_env\<lparr>env_id1 := ''v2''\<rparr>) ''abc234'' (Some ''h1'') (Some ''s1'')),
      fst (snd (toggleVote demo_db (demo_env\<lparr>env_id1 := ''v2''\<rparr>) ''abc234'' (Some ''h1'')
                  (Some ''s1''))),
      (200, VoteBody ''s1'' 1 True))"
    using r by (simp add: prod_eq_iff)
  have s: "(200::nat) = 200 \<or> (200::nat) = 201" by simp
  from success_events_order [OF h s] h show ?thesis by simp
qed

text \<open>
  C9 as stated fails for every call but add: a successful vote on the demo party sends
  votes-updated first and the snapshot second.
\<close>

theorem vote_event_before_snapshot_counterexample:
  "fst (snd (snd (toggleVote demo_db (demo_env\<lparr>env_id1 := ''v2''\<rparr>) ''abc234'' (Some ''h1'')
                    (Some ''s1'')))) = 200 \<and>
   map is_snapshot
     (fst (snd (toggleVote demo_db (demo_env\<lparr>env_id1 := ''v2''\<rparr>) ''abc234'' (Some ''h1'')
                  (Some ''s1'')))) = [False, True]"
  by code_simp

end
